theory Spec2Isabelle
  imports Complex_Main "HOL-Library.Word"
begin

section \<open>Python values, errors and logging\<close>

text \<open>
  The sources are Python. An exception that leaves a function is a value \<open>Inl e\<close> of
  the result type \<open>py_error + 'a\<close>; a loop that may poll forever lives in
  \<open>option\<close>, where \<open>None\<close> means that the call does not return.
  Python's unbounded integers are \<open>int\<close>. A Python float is the rational number it
  denotes. In the photon-counting card driver, where the length written to the card
  hangs on the integer part of a quotient of floats, every float operation is rounded to
  the nearest binary64 number (\<open>rd\<close> below). In the other three modules the floats
  stand for their exact values, and no statement there depends on a rounded result.
\<close>

datatype py_error =
    AttributeError | TypeError | ValueError | ZeroDivisionError | IndexError | OverflowError

datatype pyval = PyInt int | PyFloat rat

datatype log_level = Debug | Info | Warning | Error | Exception

type_synonym log_entry = "log_level \<times> string"

text \<open>\<open>int(x)\<close> on a float truncates towards zero.\<close>

definition py_int :: "rat \<Rightarrow> int" where
  "py_int q = (if 0 \<le> q then \<lfloor>q\<rfloor> else \<lceil>q\<rceil>)"

text \<open>\<open>int(v)\<close> on a value read from a ctypes field: an integer field already yields
  a Python \<open>int\<close>, a \<open>c_double\<close> field yields a float.\<close>

fun int_of :: "pyval \<Rightarrow> int" where
  "int_of (PyInt i) = i"
| "int_of (PyFloat q) = py_int q"

subsection \<open>Binary64 rounding\<close>

text \<open>
  \<open>ilog2 n\<close> is the position of the leading bit of \<open>n\<close>, and \<open>flog2 q\<close> the
  binary exponent of a positive rational: \<open>2 ^ flog2 q \<le> q < 2 ^ (flog2 q + 1)\<close>.
\<close>

fun ilog2 :: "nat \<Rightarrow> nat" where
  "ilog2 n = (if n < 2 then 0 else Suc (ilog2 (n div 2)))"

definition flog2 :: "rat \<Rightarrow> int" where
  "flog2 q =
    (let k = int (ilog2 (nat (fst (quotient_of q)))) - int (ilog2 (nat (snd (quotient_of q))))
     in if 2 powi k \<le> q then k else k - 1)"

definition round_half_even :: "rat \<Rightarrow> int" where
  "round_half_even x =
    (let f = \<lfloor>x\<rfloor>; r = x - of_int f
     in if r < 1 / 2 then f else if 1 / 2 < r then f + 1 else if even f then f else f + 1)"

text \<open>
  \<open>rd q\<close> is the binary64 number nearest to \<open>q\<close>, ties to the even significand:
  the result of a float operation whose exact result is \<open>q\<close>, and the value of a
  decimal literal \<open>q\<close>. The significand has 53 bits. The exponent is not bounded in the
  model, so overflow to infinity and the subnormal numbers are outside it; the numbers
  the driver handles lie between \<open>1e-10\<close> and \<open>1e11\<close>.
\<close>

definition rd :: "rat \<Rightarrow> rat" where
  "rd q =
    (if q = 0 then 0
     else (let e = flog2 \<bar>q\<bar> - 52; m = round_half_even (\<bar>q\<bar> / 2 powi e)
           in sgn q * of_int m * 2 powi e))"

section \<open>Photon-counting card driver (hardware/fastcomtec/fastcomtecp7887.py)\<close>

subsection \<open>The vendor structures and the device\<close>

text \<open>
  The card's settings memory. The fields are those of \<open>AcqSettings._fields_\<close>, in
  that order (prefixed with \<open>d_\<close>). The library is a Windows DLL, where
  \<open>c_long\<close> and \<open>c_ulong\<close> are 32 bits wide: \<open>range\<close>, \<open>roimin\<close> and
  \<open>roimax\<close> are unsigned (read with \<open>uint\<close>), the other integer fields signed
  (read with \<open>sint\<close>); the \<open>c_double\<close> fields are floats.
\<close>

record AcqSettings_mem =
  d_range :: "32 word"
  d_prena :: "32 word"
  d_cftfak :: "32 word"
  d_roimin :: "32 word"
  d_roimax :: "32 word"
  d_eventpreset :: rat
  d_timepreset :: rat
  d_savedata :: "32 word"
  d_fmt :: "32 word"
  d_autoinc :: "32 word"
  d_cycles :: "32 word"
  d_sweepmode :: "32 word"
  d_syncout :: "32 word"
  d_bitshift :: "32 word"
  d_digval :: "32 word"
  d_digio :: "32 word"
  d_dac0 :: "32 word"
  d_dac1 :: "32 word"
  d_swpreset :: rat
  d_nregions :: "32 word"
  d_caluse :: "32 word"
  d_fstchan :: rat
  d_active :: "32 word"
  d_calpoints :: "32 word"

text \<open>
  The ASCII commands the driver sends through \<open>dll.RunCmd\<close>, one constructor per
  command word, and the three direct library calls \<open>Start\<close>, \<open>Halt\<close>,
  \<open>Continue\<close>.
\<close>

datatype cmd =
    BITSHIFT int | RANGE int | ROIMAX int | CYCLES int | SEQUENCES int | SWPRESET int
  | PRENA int | SWEEPMODE int | SAVEDATA int | DATNAME string | SAVEMPA | LOADCNF string
  | FSTCHAN int | Start | Halt | Continue

text \<open>
  The device, as the driver sees it through \<open>dp7887.dll\<close>. The library itself is
  vendor code outside the repository; the model assumes that a settings command stores
  its argument in the settings field of the same name, records every command in
  \<open>cmd_log\<close>, and answers the \<open>k\<close>-th call of \<open>GetStatusData\<close> with
  \<open>started_feed k\<close> in \<open>status.started\<close>. Any behaviour of a deterministic
  device is some feed, so nothing is assumed about how the status evolves. An argument
  that fits the 32-bit field is stored as it is. What the card does with one that does
  not fit is the vendor's business; the model reduces it modulo \<open>2 ^ 32\<close>, and no
  statement below depends on which 32-bit value the field holds then.
\<close>

record device =
  mem :: AcqSettings_mem
  started_feed :: "nat \<Rightarrow> int"
  status_reads :: nat
  dev_sweeps :: rat
  dev_runtime :: rat
  histogram :: "nat \<Rightarrow> int"
  api_result :: int
  cmd_log :: "cmd list"

fun apply_cmd :: "cmd \<Rightarrow> AcqSettings_mem \<Rightarrow> AcqSettings_mem" where
  "apply_cmd (BITSHIFT n) m = m\<lparr>d_bitshift := word_of_int n\<rparr>"
| "apply_cmd (RANGE n) m = m\<lparr>d_range := word_of_int n\<rparr>"
| "apply_cmd (ROIMAX n) m = m\<lparr>d_roimax := word_of_int n\<rparr>"
| "apply_cmd (CYCLES n) m = m\<lparr>d_cycles := word_of_int n\<rparr>"
| "apply_cmd (SWPRESET n) m = m\<lparr>d_swpreset := rd (of_int n)\<rparr>"
| "apply_cmd (PRENA n) m = m\<lparr>d_prena := word_of_int n\<rparr>"
| "apply_cmd (SWEEPMODE n) m = m\<lparr>d_sweepmode := word_of_int n\<rparr>"
| "apply_cmd (SAVEDATA n) m = m\<lparr>d_savedata := word_of_int n\<rparr>"
| "apply_cmd (FSTCHAN n) m = m\<lparr>d_fstchan := rd (of_int n)\<rparr>"
| "apply_cmd c m = m"

definition dev_RunCmd :: "cmd \<Rightarrow> device \<Rightarrow> device" where
  "dev_RunCmd c d = d\<lparr>mem := apply_cmd c (mem d), cmd_log := cmd_log d @ [c]\<rparr>"

text \<open>
  A \<open>ctypes.Structure\<close> instance is its list of named fields; reading an attribute
  looks the name up in that list and raises \<open>AttributeError\<close> when the class
  declares no such field. \<open>GetSettingData\<close> fills an \<open>AcqSettings\<close> instance
  from the settings memory.
\<close>

type_synonym AcqSettings = "(string \<times> pyval) list"

definition GetSettingData :: "device \<Rightarrow> AcqSettings" where
  "GetSettingData d =
    [(''range'',       PyInt (uint (d_range (mem d)))),
     (''prena'',       PyInt (sint (d_prena (mem d)))),
     (''cftfak'',      PyInt (sint (d_cftfak (mem d)))),
     (''roimin'',      PyInt (uint (d_roimin (mem d)))),
     (''roimax'',      PyInt (uint (d_roimax (mem d)))),
     (''eventpreset'', PyFloat (d_eventpreset (mem d))),
     (''timepreset'',  PyFloat (d_timepreset (mem d))),
     (''savedata'',    PyInt (sint (d_savedata (mem d)))),
     (''fmt'',         PyInt (sint (d_fmt (mem d)))),
     (''autoinc'',     PyInt (sint (d_autoinc (mem d)))),
     (''cycles'',      PyInt (sint (d_cycles (mem d)))),
     (''sweepmode'',   PyInt (sint (d_sweepmode (mem d)))),
     (''syncout'',     PyInt (sint (d_syncout (mem d)))),
     (''bitshift'',    PyInt (sint (d_bitshift (mem d)))),
     (''digval'',      PyInt (sint (d_digval (mem d)))),
     (''digio'',       PyInt (sint (d_digio (mem d)))),
     (''dac0'',        PyInt (sint (d_dac0 (mem d)))),
     (''dac1'',        PyInt (sint (d_dac1 (mem d)))),
     (''swpreset'',    PyFloat (d_swpreset (mem d))),
     (''nregions'',    PyInt (sint (d_nregions (mem d)))),
     (''caluse'',      PyInt (sint (d_caluse (mem d)))),
     (''fstchan'',     PyFloat (d_fstchan (mem d))),
     (''active'',      PyInt (sint (d_active (mem d)))),
     (''calpoints'',   PyInt (sint (d_calpoints (mem d))))]"

definition getattr :: "AcqSettings \<Rightarrow> string \<Rightarrow> py_error + pyval" where
  "getattr s name = (case map_of s name of None \<Rightarrow> Inl AttributeError | Some v \<Rightarrow> Inr v)"

text \<open>The fields of \<open>AcqStatus\<close> that the driver reads.\<close>

record AcqStatus =
  started :: int
  runtime :: rat
  sweeps :: rat

definition GetStatusData :: "device \<Rightarrow> AcqStatus \<times> device" where
  "GetStatusData d =
    (\<lparr>started = started_feed d (status_reads d), runtime = dev_runtime d, sweeps = dev_sweeps d\<rparr>,
     d\<lparr>status_reads := Suc (status_reads d)\<rparr>)"

subsection \<open>The driver object\<close>

text \<open>
  What \<open>get_data_trace\<close> returns: the trace (one-dimensional when ungated,
  two-dimensional when gated) and the info dictionary.
\<close>

datatype ndarray = Arr1 "int list" | Arr2 "int list list"

record info_dict =
  elapsed_sweeps :: rat
  elapsed_time :: "rat option"

text \<open>
  \<open>self.timetrace_tmp\<close> holds either the empty list it is initialised and reset
  to, or whatever \<open>pause_measure\<close> stored there: the value returned by
  \<open>get_data_trace\<close>, which is the pair of trace and info dictionary.
\<close>

datatype tmp_val = PyEmptyList | TraceResult ndarray info_dict

text \<open>
  The driver object: its options and attributes, the device behind \<open>self.dll\<close>, the
  log, and the time spent in \<open>time.sleep\<close>. \<open>np_log2\<close> is numpy's \<open>log2\<close> on
  positive floats: library code outside the repository, a parameter of the model.
\<close>

record fastcomtec =
  gated :: bool
  trigger_safety :: rat
  aom_delay :: rat
  minimal_binwidth :: rat
  np_log2 :: "rat \<Rightarrow> rat"
  stopped_or_halt :: string
  timetrace_tmp :: tmp_val
  dll :: device
  fc_log :: "log_entry list"
  slept_ms :: nat

definition fc_logmsg :: "log_level \<Rightarrow> string \<Rightarrow> fastcomtec \<Rightarrow> fastcomtec" where
  "fc_logmsg lv msg st = st\<lparr>fc_log := fc_log st @ [(lv, msg)]\<rparr>"

definition sleep :: "nat \<Rightarrow> fastcomtec \<Rightarrow> fastcomtec" where
  "sleep ms st = st\<lparr>slept_ms := slept_ms st + ms\<rparr>"

definition RunCmd :: "cmd \<Rightarrow> fastcomtec \<Rightarrow> fastcomtec" where
  "RunCmd c st = st\<lparr>dll := dev_RunCmd c (dll st)\<rparr>"

text \<open>\<open>self.dll.Start(0)\<close>, \<open>Halt(0)\<close>, \<open>Continue(0)\<close>: the call is recorded,
  its integer result is the library's.\<close>

definition dll_call :: "cmd \<Rightarrow> fastcomtec \<Rightarrow> int \<times> fastcomtec" where
  "dll_call c st = (api_result (dll st), RunCmd c st)"

subsection \<open>Settings accessors\<close>




definition get_preset :: "fastcomtec \<Rightarrow> py_error + int" where
  "get_preset st =
    (case getattr (GetSettingData (dll st)) ''swpreset'' of
       Inl e \<Rightarrow> Inl e | Inr v \<Rightarrow> Inr (int_of v))"

definition get_sequences :: "fastcomtec \<Rightarrow> py_error + int" where
  "get_sequences st =
    (case getattr (GetSettingData (dll st)) ''sequences'' of
       Inl e \<Rightarrow> Inl e | Inr v \<Rightarrow> Inr (int_of v))"

subsection \<open>Constraints, length, cycles and bin width\<close>


definition max_sweep_len :: rat where
  "max_sweep_len = rd (68 / 10)"

definition hardware_binwidth_list :: "fastcomtec \<Rightarrow> rat list" where
  "hardware_binwidth_list st = map (\<lambda>k. rd (minimal_binwidth st * 2 ^ k)) [0..<25]"











subsection \<open>configure\<close>




subsection \<open>Status and the measurement commands\<close>

definition read_status :: "fastcomtec \<Rightarrow> AcqStatus \<times> fastcomtec" where
  "read_status st = (let (s, d) = GetStatusData (dll st) in (s, st\<lparr>dll := d\<rparr>))"

text \<open>
  The loop of \<open>get_status\<close>: while the device reports "about to stop" (3), sleep
  0.1 s and read again. Nothing bounds it.
\<close>

partial_function (option) status_wait ::
  "AcqStatus \<times> fastcomtec \<Rightarrow> (AcqStatus \<times> fastcomtec) option" where
  "status_wait p =
    (if started (fst p) = 3 then status_wait (read_status (sleep 100 (snd p))) else Some p)"

definition status_code :: "AcqStatus \<Rightarrow> fastcomtec \<Rightarrow> int \<times> fastcomtec" where
  "status_code s st =
    (if started s = 1 then (2, st)
     else if started s = 0
     then (if stopped_or_halt st = ''stopped'' then (1, st)
           else if stopped_or_halt st = ''halt'' then (3, st)
           else (- 1, fc_logmsg Error ''There is an unknown status from FastComtec.'' st))
     else (- 1, fc_logmsg Error ''There is an unknown status from FastComtec.'' st))"

definition get_status :: "fastcomtec \<Rightarrow> (int \<times> fastcomtec) option" where
  "get_status st =
    (case status_wait (read_status st) of
       None \<Rightarrow> None
     | Some (s, st1) \<Rightarrow> Some (status_code s st1))"

definition get_current_sweeps :: "fastcomtec \<Rightarrow> rat \<times> fastcomtec" where
  "get_current_sweeps st = (let (s, st1) = read_status st in (sweeps s, st1))"

text \<open>
  The loop of \<open>start_measure\<close> and \<open>stop_measure\<close>:
  \<open>while self.get_status() != target and i_wait < n_wait_max: sleep(0.05); i_wait += 1\<close>
  with \<open>n_wait_max = 20\<close>. The status is read before the counter is compared.
\<close>

definition n_wait_max :: nat where
  "n_wait_max = 20"

function bounded_poll :: "int \<Rightarrow> nat \<Rightarrow> fastcomtec \<Rightarrow> (nat \<times> fastcomtec) option" where
  "bounded_poll target i_wait st =
    (case get_status st of
       None \<Rightarrow> None
     | Some (s, st1) \<Rightarrow>
         if s \<noteq> target \<and> i_wait < n_wait_max
         then bounded_poll target (Suc i_wait) (sleep 50 st1)
         else Some (i_wait, st1))"
  by pat_completeness auto
termination
  by (relation "measure (\<lambda>(target, i_wait, st). n_wait_max - i_wait)") auto

text \<open>
  The loop of \<open>pause_measure\<close> and of the ungated \<open>continue_measure\<close>:
  \<open>while self.get_status() != target: time.sleep(0.05)\<close>.
\<close>

partial_function (option) unbounded_poll :: "int \<Rightarrow> fastcomtec \<Rightarrow> fastcomtec option" where
  "unbounded_poll target st =
    Option.bind (get_status st)
      (\<lambda>p. if fst p \<noteq> target then unbounded_poll target (sleep 50 (snd p)) else Some (snd p))"

definition start_measure :: "fastcomtec \<Rightarrow> (int \<times> fastcomtec) option" where
  "start_measure st =
    (let (status, st1) = dll_call Start st in
     case bounded_poll 2 0 st1 of
       None \<Rightarrow> None
     | Some (i_wait, st2) \<Rightarrow>
         Some (status,
               if i_wait \<ge> n_wait_max
               then fc_logmsg Warning ''Starting fastcomtec timed out.'' st2 else st2))"

definition stop_measure :: "fastcomtec \<Rightarrow> (int \<times> fastcomtec) option" where
  "stop_measure st =
    (let (status, st1) = dll_call Halt (st\<lparr>stopped_or_halt := ''stopped''\<rparr>) in
     case bounded_poll 1 0 st1 of
       None \<Rightarrow> None
     | Some (i_wait, st2) \<Rightarrow>
         (let st3 = (if i_wait \<ge> n_wait_max
                     then fc_logmsg Warning ''Stopping fastcomtec timed out.'' st2 else st2)
          in Some (status, if gated st3 then st3\<lparr>timetrace_tmp := PyEmptyList\<rparr> else st3)))"

subsection \<open>get\_data\_trace\<close>

text \<open>
  \<open>np.empty\<close> refuses a negative dimension with \<open>ValueError\<close>; \<open>LVGetDat\<close>
  then copies the device histogram into the buffer, row after row.
\<close>

definition read_1d :: "device \<Rightarrow> int \<Rightarrow> py_error + ndarray" where
  "read_1d d n =
    (if n < 0 then Inl ValueError else Inr (Arr1 (map (histogram d) [0..<nat n])))"

definition read_2d :: "device \<Rightarrow> int \<Rightarrow> int \<Rightarrow> py_error + ndarray" where
  "read_2d d h m =
    (if h < 0 \<or> m < 0 then Inl ValueError
     else Inr (Arr2 (map (\<lambda>r. map (\<lambda>c. histogram d (r * nat m + c)) [0..<nat m]) [0..<nat h])))"

text \<open>
  \<open>time_trace + self.timetrace_tmp\<close> when \<open>timetrace_tmp\<close> is the pair stored by
  \<open>pause_measure\<close>: numpy has to turn the pair of an array and a dictionary into an
  array before it can add. It becomes an object array of two entries, which broadcasts
  against the trace only if the last dimension of the trace is 1 or 2; if not the sum
  fails with \<open>ValueError\<close>, and if so it ends in adding an integer to a dictionary,
  a \<open>TypeError\<close>. (numpy from 1.24 on refuses to build the ragged array in the first
  place, with \<open>ValueError\<close> whatever the shape.) No case returns a value.
\<close>

fun last_dim_fits :: "ndarray \<Rightarrow> bool" where
  "last_dim_fits (Arr1 xs) = (length xs = 1 \<or> length xs = 2)"
| "last_dim_fits (Arr2 rows) = list_all (\<lambda>r. length r = 1 \<or> length r = 2) rows"

definition add_pair :: "ndarray \<Rightarrow> ndarray \<times> info_dict \<Rightarrow> py_error + ndarray" where
  "add_pair time_trace tmp = (if last_dim_fits time_trace then Inl TypeError else Inl ValueError)"

definition get_data_trace ::
  "fastcomtec \<Rightarrow> py_error + ((ndarray \<times> info_dict) \<times> fastcomtec)" where
  "get_data_trace st =
    (case getattr (GetSettingData (dll st)) ''range'' of
       Inl e \<Rightarrow> Inl e
     | Inr rv \<Rightarrow>
     (let N = int_of rv in
      case (if gated st
            then (case getattr (GetSettingData (dll st)) ''cycles'' of
                    Inl e \<Rightarrow> Inl e
                  | Inr cv \<Rightarrow>
                      (let H = (if int_of cv = 0 then 1 else int_of cv)
                       in read_2d (dll st) H (py_int (rd (of_int N / of_int H)))))
            else read_1d (dll st) N) of
        Inl e \<Rightarrow> Inl e
      | Inr time_trace \<Rightarrow>
      (case (if gated st
             then (case timetrace_tmp st of
                     PyEmptyList \<Rightarrow> Inr time_trace
                   | TraceResult a i \<Rightarrow> add_pair time_trace (a, i))
             else Inr time_trace) of
         Inl e \<Rightarrow> Inl e
       | Inr time_trace' \<Rightarrow>
           (let (sw, st1) = get_current_sweeps st
            in Inr ((time_trace', \<lparr>elapsed_sweeps = sw, elapsed_time = None\<rparr>), st1)))))"

definition pause_measure :: "fastcomtec \<Rightarrow> (py_error + (int \<times> fastcomtec)) option" where
  "pause_measure st =
    (let (status, st1) = dll_call Halt (st\<lparr>stopped_or_halt := ''halt''\<rparr>) in
     case unbounded_poll 3 st1 of
       None \<Rightarrow> None
     | Some st2 \<Rightarrow>
         if gated st2
         then (case get_data_trace st2 of
                 Inl e \<Rightarrow> Some (Inl e)
               | Inr ((a, i), st3) \<Rightarrow>
                   Some (Inr (status, st3\<lparr>timetrace_tmp := TraceResult a i\<rparr>)))
         else Some (Inr (status, st2)))"

definition continue_measure :: "fastcomtec \<Rightarrow> (int \<times> fastcomtec) option" where
  "continue_measure st =
    (if gated st then start_measure st
     else (let (status, st1) = dll_call Continue st in
           case unbounded_poll 2 st1 of
             None \<Rightarrow> None
           | Some st2 \<Rightarrow> Some (status, st2)))"

section \<open>Multifunction DAQ board driver (hardware/national\_instruments\_x\_series.py)\<close>

subsection \<open>The board and the driver object\<close>

text \<open>
  The calls into the vendor library that the modelled operations make. A task handle is
  a number. \<open>ScannerAOWrite p\<close> stands for
  \<open>_write_scanner_ao(voltages=_scanner_position_to_volt(p), start=True)\<close>: the
  conversion and the \<open>DAQmxWriteAnalogF64\<close> call it feeds, which
  \<open>scanner_set_position\<close> runs inside one \<open>try\<close>.
\<close>

datatype hw_call =
    DAQmxCreateTask string nat
  | DAQmxCreateCOPulseChanFreq nat "string option" string bool rat rat
  | DAQmxCfgImplicitTiming nat nat
  | DAQmxStartTask nat
  | DAQmxReadCounterU32 nat int
  | DAQmxReadAnalogF64 nat int
  | ScannerAOWrite "rat list"

text \<open>
  The driver object: the attributes the modelled operations touch, named as in the
  source without the leading underscore, and the board behind it. \<open>hw_failing\<close>
  says which library calls raise; \<open>counter_read\<close> and \<open>analog_read\<close> are
  what the board delivers to a read; \<open>hw_log\<close> records every call attempted.
  An attribute that the class assigns nowhere before its first use
  (\<open>_clock_frequency\<close>, \<open>_scanner_clock_frequency\<close>, \<open>_samples_number\<close>)
  is an option: \<open>None\<close> means the attribute does not exist yet. A dictionary is an
  association list in insertion order.
\<close>

record nicard =
  module_state :: string
  ni_log :: "log_entry list"
  hw_log :: "hw_call list"
  hw_failing :: "hw_call \<Rightarrow> bool"
  counter_read :: "nat \<Rightarrow> int \<Rightarrow> nat list"
  analog_read :: "nat \<Rightarrow> int \<Rightarrow> rat list list"
  next_task :: nat
  clock_daq_task :: "nat option"
  scanner_clock_daq_task :: "nat option"
  clock_frequency :: "rat option"
  scanner_clock_frequency :: "rat option"
  default_clock_frequency :: rat
  default_scanner_clock_frequency :: rat
  clock_channel :: "string option"
  scanner_clock_channel :: "string option"
  clock_daq_task_new :: "(string \<times> nat) list"
  clock_frequency_new :: "(string \<times> rat) list"
  clock_channel_new :: "(string \<times> string option) list"
  clock_channels :: "string list"
  dummy_frequency :: rat
  counter_daq_tasks :: "nat list"
  counter_analog_daq_task :: "nat option"
  counter_channels :: "string list"
  counter_ai_channels :: "string list"
  samples_number :: "int option"
  scanner_position_ranges :: "(rat \<times> rat) list"
  current_position :: "rat list"

definition ni_logmsg :: "log_level \<Rightarrow> string \<Rightarrow> nicard \<Rightarrow> nicard" where
  "ni_logmsg lv msg st = st\<lparr>ni_log := ni_log st @ [(lv, msg)]\<rparr>"

text \<open>\<open>d[k] = v\<close> on a dictionary.\<close>

fun dict_set :: "'k \<Rightarrow> 'v \<Rightarrow> ('k \<times> 'v) list \<Rightarrow> ('k \<times> 'v) list" where
  "dict_set k v [] = [(k, v)]"
| "dict_set k v (p # ps) = (if fst p = k then (k, v) # ps else p # dict_set k v ps)"

definition dict_values :: "('k \<times> 'v) list \<Rightarrow> 'v list" where
  "dict_values d = map snd d"

definition dict_has :: "'k \<Rightarrow> ('k \<times> 'v) list \<Rightarrow> bool" where
  "dict_has k d = (map_of d k \<noteq> None)"

text \<open>
  A call with no channel to act on cannot succeed; otherwise the board decides.
\<close>

fun call_fails :: "nicard \<Rightarrow> hw_call \<Rightarrow> bool" where
  "call_fails st (DAQmxCreateCOPulseChanFreq t None n i f d) = True"
| "call_fails st c = hw_failing st c"

text \<open>The library calls of a \<open>try\<close> block, in order, up to the first that raises.\<close>

fun run_calls :: "hw_call list \<Rightarrow> nicard \<Rightarrow> bool \<times> nicard" where
  "run_calls [] st = (True, st)"
| "run_calls (c # cs) st =
    (let st1 = st\<lparr>hw_log := hw_log st @ [c]\<rparr>
     in if call_fails st c then (False, st1) else run_calls cs st1)"

subsection \<open>set\_up\_clock and set\_up\_clock\_new\<close>

definition assign_clock_frequency :: "rat option \<Rightarrow> bool \<Rightarrow> nicard \<Rightarrow> nicard" where
  "assign_clock_frequency freq scanner st =
    (case freq of
       Some f \<Rightarrow>
         (if \<not> scanner then st\<lparr>clock_frequency := Some f\<rparr>
          else st\<lparr>scanner_clock_frequency := Some f\<rparr>)
     | None \<Rightarrow>
         (if \<not> scanner then st\<lparr>clock_frequency := Some (default_clock_frequency st)\<rparr>
          else st\<lparr>scanner_clock_frequency := Some (default_scanner_clock_frequency st)\<rparr>))"

definition assign_clock_channel :: "string option \<Rightarrow> bool \<Rightarrow> nicard \<Rightarrow> nicard" where
  "assign_clock_channel chan scanner st =
    (case chan of
       Some c \<Rightarrow>
         (if \<not> scanner then st\<lparr>clock_channel := Some c\<rparr>
          else st\<lparr>scanner_clock_channel := Some c\<rparr>)
     | None \<Rightarrow> st)"

definition set_up_clock ::
  "nicard \<Rightarrow> rat option \<Rightarrow> string option \<Rightarrow> bool \<Rightarrow> bool \<Rightarrow> int \<times> nicard" where
  "set_up_clock st freq chan scanner idle =
    (if \<not> scanner \<and> clock_daq_task st \<noteq> None
     then (- 1, ni_logmsg Error ''Another counter clock is already running, close this one first.'' st)
     else if scanner \<and> scanner_clock_daq_task st \<noteq> None
     then (- 1, ni_logmsg Error ''Another scanner clock is already running, close this one first.'' st)
     else
     (let my_clock_daq_task = next_task st;
          st1 = assign_clock_frequency freq scanner (st\<lparr>next_task := Suc (next_task st)\<rparr>);
          my_clock_frequency =
            (if scanner then the (scanner_clock_frequency st1) * 2
             else the (clock_frequency st1) * 2);
          st2 = assign_clock_channel chan scanner st1;
          my_clock_channel =
            (if scanner then scanner_clock_channel st2 else clock_channel st2)
      in
      if scanner_clock_channel st2 = clock_channel st2
         \<and> \<not> (clock_daq_task st2 = None \<and> scanner_clock_daq_task st2 = None)
      then (- 1, ni_logmsg Error ''Only one clock channel is available!'' st2)
      else
      (let task_name = (if scanner then ''ScannerClock'' else ''CounterClock'');
           (ok, st3) =
             run_calls
               [DAQmxCreateTask task_name my_clock_daq_task,
                DAQmxCreateCOPulseChanFreq my_clock_daq_task my_clock_channel
                  ''Clock Producer'' idle (my_clock_frequency / 2) (1 / 2),
                DAQmxCfgImplicitTiming my_clock_daq_task 1000] st2
       in
       if \<not> ok then (- 1, ni_logmsg Exception ''Error while setting up clock.'' st3)
       else if scanner
       then (0, st3\<lparr>scanner_clock_daq_task := Some my_clock_daq_task,
                    clock_channel_new :=
                      dict_set ''Scanner'' (scanner_clock_channel st3) (clock_channel_new st3)\<rparr>)
       else
       (let (ok2, st4) = run_calls [DAQmxStartTask my_clock_daq_task] st3
        in
        if \<not> ok2 then (- 1, ni_logmsg Exception ''Error while setting up clock.'' st4)
        else (0, st4\<lparr>clock_daq_task := Some my_clock_daq_task,
                     clock_channel_new :=
                       dict_set ''Counter'' (clock_channel st4) (clock_channel_new st4)\<rparr>)))))"

text \<open>
  The \<open>for ... else\<close> of \<open>set_up_clock_new\<close>: the first channel of the pool that
  no name is bound to.
\<close>

definition free_clock_channel :: "nicard \<Rightarrow> string option" where
  "free_clock_channel st =
    (case filter (\<lambda>i. Some i \<notin> set (dict_values (clock_channel_new st))) (clock_channels st) of
       [] \<Rightarrow> None | i # rest \<Rightarrow> Some i)"

definition set_up_clock_new ::
  "nicard \<Rightarrow> string \<Rightarrow> rat option \<Rightarrow> string option \<Rightarrow> bool \<Rightarrow> bool \<Rightarrow> int \<times> nicard" where
  "set_up_clock_new st name freq chan idle start =
    (if dict_has name (clock_daq_task_new st)
     then (- 1, ni_logmsg Error ''A clock task for this axis is already running, close this one first.'' st)
     else
     (let st1 =
            (case freq of
               None \<Rightarrow>
                 ni_logmsg Info ''no clock frequency given, using dummy frequency instead.''
                   (st\<lparr>clock_frequency_new :=
                          dict_set name (dummy_frequency st) (clock_frequency_new st)\<rparr>)
             | Some f \<Rightarrow>
                 if f \<le> 0
                 then ni_logmsg Info ''no clock frequency given, using dummy frequency instead.''
                        (st\<lparr>clock_frequency_new :=
                               dict_set name (dummy_frequency st) (clock_frequency_new st)\<rparr>)
                 else st\<lparr>clock_frequency_new := dict_set name f (clock_frequency_new st)\<rparr>);
          my_clock_frequency = the (map_of (clock_frequency_new st1) name)
      in
      case (case chan of Some c \<Rightarrow> Some c | None \<Rightarrow> free_clock_channel st1) of
        None \<Rightarrow>
          (- 1, ni_logmsg Error ''There is no clock channel free to be used for this task.'' st1)
      | Some my_clock_channel \<Rightarrow>
          if Some my_clock_channel \<in> set (dict_values (clock_channel_new st1))
          then (- 1, ni_logmsg Warning ''This clock channel is already being used.'' st1)
          else
          (let st2 = st1\<lparr>clock_channel_new :=
                          dict_set name (Some my_clock_channel) (clock_channel_new st1)\<rparr>;
               my_clock_daq_task = next_task st2;
               (ok, st3) =
                 run_calls
                   [DAQmxCreateTask name my_clock_daq_task,
                    DAQmxCreateCOPulseChanFreq my_clock_daq_task (Some my_clock_channel)
                      (''Clock Producer '' @ name) idle my_clock_frequency (1 / 2),
                    DAQmxCfgImplicitTiming my_clock_daq_task 1000]
                   (st2\<lparr>next_task := Suc (next_task st2)\<rparr>)
           in
           if \<not> ok then (- 1, ni_logmsg Exception ''Error while setting up clock.'' st3)
           else
           (let st4 = st3\<lparr>clock_daq_task_new :=
                           dict_set name my_clock_daq_task (clock_daq_task_new st3)\<rparr>
            in
            if start
            then (let (ok2, st5) = run_calls [DAQmxStartTask my_clock_daq_task] st4
                  in if \<not> ok2
                     then (- 1, ni_logmsg Exception ''Error while setting up clock.'' st5)
                     else (0, st5))
            else (0, st4)))))"

text \<open>The pulse frequencies handed to \<open>DAQmxCreateCOPulseChanFreq\<close>, in call order.\<close>

fun pulse_freqs :: "hw_call list \<Rightarrow> rat list" where
  "pulse_freqs [] = []"
| "pulse_freqs (DAQmxCreateCOPulseChanFreq t c n i f d # cs) = f # pulse_freqs cs"
| "pulse_freqs (c # cs) = pulse_freqs cs"

subsection \<open>scanner\_set\_position\<close>

text \<open>
  One axis block of \<open>scanner_set_position\<close>, for axis number \<open>i\<close>:
  \<^verbatim>\<open>
  if x is not None:
      if not (self._scanner_position_ranges[0][0] <= x <= self._scanner_position_ranges[0][1]):
          self.log.error(...); return -1
      self._current_position[0] = np.float(x)
  \<close>
  The result is \<open>Some r\<close> when the call ends in this block (with \<open>-1\<close>, or with the
  \<open>IndexError\<close> of a range or position entry that does not exist) and \<open>None\<close>
  when it goes on to the next block.
\<close>

definition axis_block ::
  "nat \<Rightarrow> rat option \<Rightarrow> nicard \<Rightarrow> (py_error + int) option \<times> nicard" where
  "axis_block i v st =
    (case v of
       None \<Rightarrow> (None, st)
     | Some p \<Rightarrow>
         if length (scanner_position_ranges st) \<le> i then (Some (Inl IndexError), st)
         else if \<not> (fst (scanner_position_ranges st ! i) \<le> p
                     \<and> p \<le> snd (scanner_position_ranges st ! i))
         then (Some (Inr (- 1)), ni_logmsg Error ''You want to set an axis out of range.'' st)
         else if length (current_position st) \<le> i then (Some (Inl IndexError), st)
         else (None, st\<lparr>current_position := (current_position st)[i := p]\<rparr>))"

definition scanner_set_position ::
  "nicard \<Rightarrow> rat option \<Rightarrow> rat option \<Rightarrow> rat option \<Rightarrow> rat option
     \<Rightarrow> (py_error + int) \<times> nicard" where
  "scanner_set_position st x y z a =
    (if module_state st = ''locked''
     then (Inr (- 1), ni_logmsg Error ''Another scan_line is already running, close this one first.'' st)
     else
     (case axis_block 0 x st of
        (Some r, st1) \<Rightarrow> (r, st1)
      | (None, st1) \<Rightarrow>
     (case axis_block 1 y st1 of
        (Some r, st2) \<Rightarrow> (r, st2)
      | (None, st2) \<Rightarrow>
     (case axis_block 2 z st2 of
        (Some r, st3) \<Rightarrow> (r, st3)
      | (None, st3) \<Rightarrow>
     (case axis_block 3 a st3 of
        (Some r, st4) \<Rightarrow> (r, st4)
      | (None, st4) \<Rightarrow>
          if current_position st4 = [] then (Inl ValueError, st4)
          else (let (ok, st5) = run_calls [ScannerAOWrite (current_position st4)] st4
                in if ok then (Inr 0, st5) else (Inr (- 1), st5)))))))"

subsection \<open>get\_counter\<close>

type_synonym matrix = "rat list list"

definition get_counter_channels :: "nicard \<Rightarrow> string list" where
  "get_counter_channels st = counter_channels st @ counter_ai_channels st"

text \<open>
  \<open>np.ones((rows, samples), dtype=np.uint32) * -1\<close>: \<open>np.ones\<close> raises
  \<open>TypeError\<close> when a dimension is \<open>None\<close> and \<open>ValueError\<close> when it is
  negative; the product with \<open>-1\<close> is an integer array filled with \<open>-1\<close>.
\<close>

definition minus_ones :: "nat \<Rightarrow> int option \<Rightarrow> py_error + matrix" where
  "minus_ones rows samples =
    (case samples of
       None \<Rightarrow> Inl TypeError
     | Some n \<Rightarrow>
         if n < 0 then Inl ValueError
         else Inr (replicate rows (replicate (nat n) (- 1))))"

text \<open>
  The body of the \<open>try\<close>: one \<open>DAQmxReadCounterU32\<close> of \<open>2 * samples\<close> values
  per counter task, into a row of that length, and one \<open>DAQmxReadAnalogF64\<close> when
  analogue channels are configured. \<open>None\<close> is an exception inside the \<open>try\<close>.
\<close>

definition fit_row :: "nat \<Rightarrow> 'a::zero list \<Rightarrow> 'a list" where
  "fit_row n xs = take n (xs @ replicate n 0)"

fun read_counters :: "nat list \<Rightarrow> int \<Rightarrow> nicard \<Rightarrow> nat list list option \<times> nicard" where
  "read_counters [] samples st = (Some [], st)"
| "read_counters (task # tasks) samples st =
    (case run_calls [DAQmxReadCounterU32 task (2 * samples)] st of
       (False, st1) \<Rightarrow> (None, st1)
     | (True, st1) \<Rightarrow>
         (case read_counters tasks samples st1 of
            (None, st2) \<Rightarrow> (None, st2)
          | (Some rows, st2) \<Rightarrow>
              (Some (fit_row (nat (2 * samples)) (counter_read st task (2 * samples)) # rows), st2)))"

definition read_analog :: "int \<Rightarrow> nicard \<Rightarrow> matrix option \<times> nicard" where
  "read_analog samples st =
    (if length (counter_ai_channels st) > 0
     then (case counter_analog_daq_task st of
             None \<Rightarrow> (None, st)
           | Some t \<Rightarrow>
               (case run_calls [DAQmxReadAnalogF64 t samples] st of
                  (False, st1) \<Rightarrow> (None, st1)
                | (True, st1) \<Rightarrow>
                    (Some (map (fit_row (nat samples))
                             (take (length (counter_ai_channels st))
                                (analog_read st t samples
                                 @ replicate (length (counter_ai_channels st)) []))), st1)))
     else (Some [], st))"

text \<open>
  \<open>real_data = count_data[:, ::2]; real_data += count_data[:, 1::2]\<close> in unsigned
  32-bit arithmetic.
\<close>

fun pair_sums :: "nat list \<Rightarrow> nat list" where
  "pair_sums (a # b # xs) = ((a + b) mod 2 ^ 32) # pair_sums xs"
| "pair_sums xs = []"

text \<open>
  The assembly of \<open>all_data\<close>: the counter rows, scaled to counts per second, are
  written to the rows \<open>0:len(real_data)\<close>, then the analogue rows to the last
  \<open>len(counter_ai_channels)\<close> rows. The first assignment raises \<open>ValueError\<close>
  when the rows do not broadcast. The clock frequency is a float here, as
  \<open>set_up_clock\<close> stores a given frequency; with the configured default, a Python
  integer, numpy keeps the product in unsigned 32-bit arithmetic, where it can wrap,
  and that case is outside the model.
\<close>

definition assemble ::
  "nat \<Rightarrow> nat \<Rightarrow> rat \<Rightarrow> nat list list \<Rightarrow> matrix \<Rightarrow> py_error + matrix" where
  "assemble n_channels samples freq real_data analog_data =
    (let all_data = replicate n_channels (replicate samples 222);
         t = length real_data;
         m = min t n_channels;
         scaled = map (map (\<lambda>c. of_nat c * freq)) real_data
     in
     if t \<noteq> m \<and> t \<noteq> 1 then Inl ValueError
     else
     (let counted = (if t = m then scaled else replicate m (hd scaled)) @ drop m all_data;
          k = length analog_data
      in Inr (if k > 0 then take (n_channels - k) counted @ analog_data else counted)))"

definition get_counter :: "nicard \<Rightarrow> int option \<Rightarrow> (py_error + matrix) \<times> nicard" where
  "get_counter st samples =
    (if length (counter_daq_tasks st) < 1
     then (minus_ones (length (get_counter_channels st)) samples,
           ni_logmsg Error ''No counter running, call set_up_counter before reading it.'' st)
     else if length (counter_ai_channels st) > 0 \<and> counter_analog_daq_task st = None
     then (minus_ones (length (get_counter_channels st)) samples,
           ni_logmsg Error
             ''No counter analog input task running, call set_up_counter before reading it.'' st)
     else
     (case (case samples of None \<Rightarrow> samples_number st | Some n \<Rightarrow> Some n) of
        None \<Rightarrow> (Inl AttributeError, st)
      | Some n \<Rightarrow>
          if n < 0
          then (minus_ones (length (get_counter_channels st)) (Some n),
                ni_logmsg Exception ''Getting samples from counter failed.'' st)
          else
          (case read_counters (counter_daq_tasks st) n st of
             (None, st1) \<Rightarrow>
               (minus_ones (length (get_counter_channels st1)) (Some n),
                ni_logmsg Exception ''Getting samples from counter failed.'' st1)
           | (Some count_data, st1) \<Rightarrow>
               (case read_analog n st1 of
                  (None, st2) \<Rightarrow>
                    (minus_ones (length (get_counter_channels st2)) (Some n),
                     ni_logmsg Exception ''Getting samples from counter failed.'' st2)
                | (Some analog_data, st2) \<Rightarrow>
                    (case clock_frequency st2 of
                       None \<Rightarrow> (Inl AttributeError, st2)
                     | Some f \<Rightarrow>
                         (assemble (length (get_counter_channels st2)) (nat n) f
                            (map pair_sums count_data) analog_data, st2))))))"

text \<open>
  The pulse frequencies that an operation handed to the library: those in the log of
  the state after it that were not in the log before.
\<close>

definition issued :: "nicard \<Rightarrow> nicard \<Rightarrow> rat list" where
  "issued st st' = drop (length (pulse_freqs (hw_log st))) (pulse_freqs (hw_log st'))"

section \<open>Pulse-sequence generators (logic/pulsed/predefined\_generate\_methods/pentacene\_methods.py)\<close>

subsection \<open>Pulse objects\<close>

text \<open>
  The element helpers (\<open>_get_idle_element\<close>, \<open>_get_mw_element\<close>, ...) belong to
  the base class \<open>PredefinedGeneratorBase\<close>, which is not among the sources. An
  element is therefore the helper call that built it, with its arguments in the
  helper's keyword order (length, increment, then amplitude, frequency or start and
  stop frequency, phase); \<open>with_digital_high e ch v\<close> is \<open>e\<close> after
  \<open>e.digital_high[ch] = v\<close>.
\<close>

datatype element =
    idle_element rat rat
  | laser_gate_element rat rat
  | delay_gate_element
  | mw_element rat rat rat rat rat
  | mw_laser_element rat rat rat rat rat
  | mw_element_linearchirp rat rat rat rat rat rat
  | with_digital_high element string bool

record pulse_block =
  block_name :: string
  element_list :: "element list"

record measurement_information =
  alternating :: bool
  laser_ignore_list :: "nat list"
  controlled_variable :: "rat list"
  units :: "string \<times> string"
  labels :: "string \<times> string"
  number_of_lasers :: int
  counting_length :: rat

record ensemble =
  ensemble_name :: string
  rotating_frame :: bool
  block_list :: "(string \<times> int) list"
  info :: "measurement_information option"

text \<open>
  The generator object. The timing constants are properties of the base class. Taken
  as parameters, because the base class is not among the sources: the names a
  \<open>PentaceneMethods\<close> instance answers to (\<open>attribute_names\<close>), and the two base
  class methods \<open>_add_trigger\<close> and \<open>_get_ensemble_count_length\<close>.
\<close>

record generator =
  wait_time :: rat
  laser_length :: rat
  rabi_period :: rat
  microwave_amplitude :: rat
  microwave_frequency :: rat
  laser_channel :: string
  attribute_names :: "string list"
  add_trigger :: "pulse_block list \<times> ensemble \<Rightarrow> pulse_block list \<times> ensemble"
  get_ensemble_count_length :: "ensemble \<Rightarrow> pulse_block list \<Rightarrow> rat"

type_synonym generated = "pulse_block list \<times> ensemble list \<times> unit list"

text \<open>\<open>start + np.arange(num_of_points) * step\<close>; \<open>np.arange\<close> of a negative
  number is empty.\<close>

definition sweep_array :: "rat \<Rightarrow> int \<Rightarrow> rat \<Rightarrow> rat list" where
  "sweep_array start num_of_points step = map (\<lambda>i. start + of_int i * step) [0..num_of_points - 1]"

text \<open>
  The common tail of every generator: wrap the block in an ensemble, let the base class
  add its trigger block, then write the seven metadata entries.
\<close>

definition finish ::
  "generator \<Rightarrow> string \<Rightarrow> pulse_block \<Rightarrow> int \<Rightarrow> bool \<Rightarrow> rat list
     \<Rightarrow> string \<times> string \<Rightarrow> string \<times> string \<Rightarrow> int \<Rightarrow> generated" where
  "finish self name block reps alt var un lab n_lasers =
    (let block_ensemble =
           \<lparr>ensemble_name = name, rotating_frame = False,
            block_list = [(block_name block, reps)], info = None\<rparr>;
         (created_blocks, block_ensemble1) = add_trigger self ([block], block_ensemble);
         mi = \<lparr>alternating = alt, laser_ignore_list = [], controlled_variable = var,
               units = un, labels = lab, number_of_lasers = n_lasers, counting_length = 0\<rparr>;
         block_ensemble2 = block_ensemble1\<lparr>info := Some mi\<rparr>;
         block_ensemble3 =
           block_ensemble2\<lparr>info :=
             Some (mi\<lparr>counting_length :=
                          get_ensemble_count_length self block_ensemble2 created_blocks\<rparr>)\<rparr>
     in (created_blocks, [block_ensemble3], []))"

subsection \<open>The generators\<close>

definition generate_podmr_pentacene ::
  "generator \<Rightarrow> string \<Rightarrow> rat \<Rightarrow> rat \<Rightarrow> rat \<Rightarrow> int \<Rightarrow> bool \<Rightarrow> generated" where
  "generate_podmr_pentacene self name freq_start freq_step wait_2_time num_of_points alternating_no_mw =
    (let freq_array = sweep_array freq_start num_of_points freq_step;
         waiting_element = idle_element (wait_time self) 0;
         laser_element = laser_gate_element (laser_length self) 0;
         waiting_afterMW_element = idle_element wait_2_time 0;
         delay_element = delay_gate_element;
         pulsedodmr_block =
           \<lparr>block_name = name,
            element_list =
              concat (map (\<lambda>mw_freq.
                [waiting_element,
                 mw_element (rabi_period self / 2) 0 (microwave_amplitude self) mw_freq 0,
                 waiting_afterMW_element, laser_element, delay_element]
                @ (if alternating_no_mw
                   then [waiting_element,
                         mw_element (rabi_period self / 2) 0 0 (mw_freq / 2) 0,
                         waiting_afterMW_element, laser_element, delay_element]
                   else [])) freq_array)\<rparr>
     in finish self name pulsedodmr_block 0 alternating_no_mw freq_array
          (''Hz'', []) (''Frequency'', ''Signal'') num_of_points)"

definition generate_fakecwodmr_pentacene ::
  "generator \<Rightarrow> string \<Rightarrow> rat \<Rightarrow> rat \<Rightarrow> rat \<Rightarrow> int \<Rightarrow> bool \<Rightarrow> generated" where
  "generate_fakecwodmr_pentacene self name freq_start freq_step t_single num_of_points alternating_no_mw =
    (let freq_array = sweep_array freq_start num_of_points freq_step;
         waiting_element = idle_element (wait_time self) 0;
         delay_element = delay_gate_element;
         pulsedodmr_block =
           \<lparr>block_name = name,
            element_list =
              concat (map (\<lambda>mw_freq.
                [mw_laser_element t_single 0 (microwave_amplitude self) mw_freq 0,
                 delay_element, waiting_element]
                @ (if alternating_no_mw
                   then [mw_laser_element t_single 0 0 (mw_freq / 2) 0,
                         delay_element, waiting_element]
                   else [])) freq_array)\<rparr>
     in finish self name pulsedodmr_block 0 alternating_no_mw freq_array
          (''Hz'', []) (''Frequency'', ''Signal'') num_of_points)"

definition generate_rabi_pentacene ::
  "generator \<Rightarrow> string \<Rightarrow> rat \<Rightarrow> rat \<Rightarrow> int \<Rightarrow> rat \<Rightarrow> bool \<Rightarrow> generated" where
  "generate_rabi_pentacene self name tau_start tau_step num_of_points wait_2_time alternating_no_mw =
    (let tau_array = sweep_array tau_start num_of_points tau_step;
         mw = mw_element tau_start tau_step (microwave_amplitude self) (microwave_frequency self) 0;
         noMw_element = mw_element tau_start tau_step 0 (microwave_frequency self / 2) 0;
         waiting_element = idle_element (wait_time self) 0;
         waiting_element_after_mw = idle_element wait_2_time 0;
         laser_element = laser_gate_element (laser_length self) 0;
         delay_element = delay_gate_element;
         rabi_block =
           \<lparr>block_name = name,
            element_list =
              [waiting_element, mw, waiting_element_after_mw, laser_element, delay_element]
              @ (if alternating_no_mw
                 then [waiting_element, noMw_element, waiting_element_after_mw,
                       laser_element, delay_element]
                 else [])\<rparr>
     in finish self name rabi_block (num_of_points - 1) alternating_no_mw tau_array
          (''s'', []) (''Tau'', ''Signal'')
          (if alternating_no_mw then 2 * num_of_points else num_of_points))"

definition generate_t1_pentacene ::
  "generator \<Rightarrow> string \<Rightarrow> rat \<Rightarrow> rat \<Rightarrow> int \<Rightarrow> bool \<Rightarrow> rat \<Rightarrow> generated" where
  "generate_t1_pentacene self name tau_start tau_step num_of_points alt wait_2_time =
    (let tau_array = sweep_array tau_start num_of_points tau_step;
         waiting_element = idle_element (wait_time self) 0;
         waiting_element_after_mw = idle_element wait_2_time 0;
         laser_element = laser_gate_element (laser_length self) 0;
         delay_element = delay_gate_element;
         pi_element =
           mw_element (rabi_period self / 2) 0 (microwave_amplitude self) (microwave_frequency self) 0;
         tau_element = idle_element tau_start tau_step;
         t1_block =
           \<lparr>block_name = name,
            element_list =
              [tau_element, waiting_element_after_mw, laser_element, delay_element, waiting_element]
              @ (if alt
                 then [pi_element, tau_element, waiting_element_after_mw, laser_element,
                       delay_element, waiting_element]
                 else [])\<rparr>;
         n_lasers = (if alt then 2 * num_of_points else num_of_points)
     in finish self name t1_block (num_of_points - 1) alt tau_array
          (''s'', []) (''Tau'', ''Signal'') n_lasers)"

text \<open>
  Reading an attribute of the generator object: \<open>AttributeError\<close> unless the object
  answers to the name.
\<close>

definition self_getattr :: "generator \<Rightarrow> string \<Rightarrow> py_error + generator" where
  "self_getattr self name =
    (if name \<in> set (attribute_names self) then Inr self else Inl AttributeError)"

text \<open>\<open>x % y\<close> on floats: the remainder has the sign of \<open>y\<close>.\<close>

definition py_mod :: "rat \<Rightarrow> rat \<Rightarrow> rat" where
  "py_mod x y = x - y * of_int \<lfloor>x / y\<rfloor>"

text \<open>
  \<open>generate_pol_ise_pentacene\<close>. The chirp element is built by
  \<open>self.self._get_mw_element_linearchirp(...)\<close>: the attribute \<open>self\<close> of the
  generator object is read first, before any argument of the call. The result comes
  with the log, since the warning is written before the element is built. Quotient and
  remainder are those of the exact values of the arguments; Python takes them of the
  nearest binary64 numbers, so that its warning can differ for arguments that are no
  binary64 numbers themselves (it warns at \<open>1e-5\<close> and \<open>1e-6\<close>, not at the
  defaults \<open>1e-6\<close> and \<open>100e-9\<close>). The outcome of the call does not hang on it.
\<close>

definition generate_pol_ise_pentacene ::
  "generator \<Rightarrow> string \<Rightarrow> rat \<Rightarrow> rat \<Rightarrow> rat \<Rightarrow> string
     \<Rightarrow> (py_error + generated) \<times> log_entry list" where
  "generate_pol_ise_pentacene self name t_laser t_mw_ramp f_mw_sweep jump_channel =
    (if t_mw_ramp = 0 then (Inl ZeroDivisionError, [])
     else
     (let n_mw_chirps = py_int (t_laser / t_mw_ramp);
          lg = (if py_mod t_laser t_mw_ramp \<noteq> 0
                then [(Warning, ''Laser not dividable by t_mw.'')] else []);
          mw_freq_center = microwave_frequency self;
          freq_range = f_mw_sweep;
          mw_freq_start = mw_freq_center - freq_range / 2;
          mw_freq_end = mw_freq_center + freq_range / 2
      in
      case self_getattr self ''self'' of
        Inl e \<Rightarrow> (Inl e, lg)
      | Inr self_self \<Rightarrow>
          (let mw_sweep_element =
                 with_digital_high
                   (with_digital_high
                      (mw_element_linearchirp t_mw_ramp 0 (microwave_amplitude self)
                         mw_freq_start mw_freq_end 0)
                      (laser_channel self) True)
                   jump_channel True;
               laser_block =
                 \<lparr>block_name = name,
                  element_list = replicate (nat n_mw_chirps) mw_sweep_element\<rparr>
           in (Inr (finish self name laser_block 0 False [0]
                      (''a.u.'', []) (''data point'', ''Signal'') 1), lg))))"

text \<open>The readout gates of a block: its laser-gate and microwave-with-laser elements.\<close>

fun is_readout :: "element \<Rightarrow> bool" where
  "is_readout (laser_gate_element l i) = True"
| "is_readout (mw_laser_element l i a f p) = True"
| "is_readout e = False"

definition readout_count :: "pulse_block \<Rightarrow> nat" where
  "readout_count b = length (filter is_readout (element_list b))"

section \<open>Cavity-stabilisation console (gui/cavity\_stabilisation/cavity\_stabilisation\_gui.py)\<close>

text \<open>
  The state the handler \<open>scan_resolution_changed\<close> reads and writes: the value of
  the resolution spin box, and the logic's \<open>_start_voltage\<close>, \<open>_end_voltage\<close>
  and \<open>_scan_resolution\<close>. The logic's method \<open>calculate_resolution\<close> is not among
  the sources and is a parameter. \<open>setValue\<close> is taken to store its argument; a
  nested run of the handler that the value change triggers finds the two values equal
  and changes nothing more.
\<close>

record cavity_gui =
  scan_resolution_spinBox :: rat
  start_voltage :: rat
  end_voltage :: rat
  scan_resolution :: rat
  calculate_resolution :: "nat \<Rightarrow> rat \<times> rat \<Rightarrow> rat"
  gui_log :: "log_entry list"

definition scan_resolution_changed :: "cavity_gui \<Rightarrow> cavity_gui" where
  "scan_resolution_changed g =
    (let resolution = scan_resolution_spinBox g;
         minV = min (start_voltage g) (end_voltage g);
         maxV = max (start_voltage g) (end_voltage g);
         maximal_scan_resolution = calculate_resolution g 16 (minV, maxV)
     in
     if resolution < maximal_scan_resolution
     then g\<lparr>gui_log := gui_log g @
               [(Warning, ''Maximum scan resolution of scanning device exceeded! Set scan resolution to maximum value.'')],
             scan_resolution := maximal_scan_resolution,
             scan_resolution_spinBox := maximal_scan_resolution\<rparr>
     else g\<lparr>scan_resolution := resolution\<rparr>)"


section \<open>Example configurations\<close>

text \<open>
  A card with 128 bins in two cycles, bit shift 0, that reports "stopped" at every status
  read, behind an ungated driver with the default options \<open>200e-9\<close>, \<open>400e-9\<close>
  and \<open>0.25e-9\<close>, and a \<open>log2\<close> that returns the integer part of the logarithm
  (the examples take it of 4 only); the same driver in front of a card that never stops
  running; and the same driver in gated mode.
\<close>

definition mem0 :: AcqSettings_mem where
  "mem0 =
    \<lparr>d_range = 128, d_prena = 0, d_cftfak = 0, d_roimin = 0, d_roimax = 128,
     d_eventpreset = 0, d_timepreset = 0, d_savedata = 0, d_fmt = 0, d_autoinc = 0,
     d_cycles = 2, d_sweepmode = 1978496, d_syncout = 0, d_bitshift = 0, d_digval = 0,
     d_digio = 0, d_dac0 = 0, d_dac1 = 0, d_swpreset = 0, d_nregions = 0, d_caluse = 0,
     d_fstchan = 0, d_active = 0, d_calpoints = 0\<rparr>"

definition dev0 :: device where
  "dev0 =
    \<lparr>mem = mem0, started_feed = (\<lambda>k. 0), status_reads = 0, dev_sweeps = 0, dev_runtime = 0,
     histogram = (\<lambda>k. int k), api_result = 0, cmd_log = []\<rparr>"

definition fc0 :: fastcomtec where
  "fc0 =
    \<lparr>gated = False, trigger_safety = rd (200 / 10 ^ 9), aom_delay = rd (400 / 10 ^ 9),
     minimal_binwidth = rd (25 / 100 / 10 ^ 9), np_log2 = (\<lambda>q. of_int (flog2 q)),
     stopped_or_halt = ''stopped'',
     timetrace_tmp = PyEmptyList, dll = dev0, fc_log = [], slept_ms = 0\<rparr>"

definition fc_running :: fastcomtec where
  "fc_running = fc0\<lparr>dll := dev0\<lparr>started_feed := (\<lambda>k. 1)\<rparr>\<rparr>"

definition fc_gated :: fastcomtec where
  "fc_gated = fc0\<lparr>gated := True\<rparr>"

text \<open>
  A board with nothing set up: no clock, no counter task, four scanner axes of range
  0 to 100 micrometres at the origin, and a library in which every call succeeds.
\<close>

definition ni0 :: nicard where
  "ni0 =
    \<lparr>module_state = ''idle'', ni_log = [], hw_log = [], hw_failing = (\<lambda>c. False),
     counter_read = (\<lambda>t n. []), analog_read = (\<lambda>t n. []), next_task = 0,
     clock_daq_task = None, scanner_clock_daq_task = None,
     clock_frequency = None, scanner_clock_frequency = None,
     default_clock_frequency = 100, default_scanner_clock_frequency = 100,
     clock_channel = Some ''/Dev1/Ctr0'', scanner_clock_channel = Some ''/Dev1/Ctr2'',
     clock_daq_task_new = [], clock_frequency_new = [], clock_channel_new = [],
     clock_channels = [''/Dev1/Ctr3''], dummy_frequency = 100,
     counter_daq_tasks = [], counter_analog_daq_task = None,
     counter_channels = [''/Dev1/Ctr1''], counter_ai_channels = [],
     samples_number = None,
     scanner_position_ranges = [(0, 1 / 10000), (0, 1 / 10000), (0, 1 / 10000), (0, 1 / 10000)],
     current_position = [0, 0, 0, 0]\<rparr>"

text \<open>
  A generator object whose attributes are the properties and methods that the sources
  use of \<open>PredefinedGeneratorBase\<close> and the methods of \<open>PentaceneMethods\<close>, that
  adds no trigger block and counts nothing.
\<close>

definition gen0 :: generator where
  "gen0 =
    \<lparr>wait_time = 1 / 10 ^ 6, laser_length = 3 / 10 ^ 6, rabi_period = 1 / 10 ^ 7,
     microwave_amplitude = 1 / 4, microwave_frequency = 287 * 10 ^ 7,
     laser_channel = ''d_ch1'',
     attribute_names =
       [''log'', ''laser_channel'', ''microwave_channel'', ''microwave_frequency'',
        ''microwave_amplitude'', ''laser_length'', ''wait_time'', ''rabi_period'',
        ''_get_idle_element'', ''_get_laser_gate_element'', ''_get_delay_gate_element'',
        ''_get_mw_element'', ''_get_mw_laser_element'', ''_get_laser_element'',
        ''_get_mw_element_linearchirp'', ''_add_trigger'', ''_get_ensemble_count_length'',
        ''generate_podmr_pentacene'', ''generate_fakecwodmr_pentacene'',
        ''generate_rabi_pentacene'', ''generate_rabi_NV_red_read'', ''generate_t1_pentacene'',
        ''generate_laser_on_jump'', ''generate_pol_ise_pentacene'', ''generate_deer_ramsey''],
     add_trigger = (\<lambda>p. p), get_ensemble_count_length = (\<lambda>e bs. 0)\<rparr>"

text \<open>
  A console with a scan from 3 V down to 1 V, whose logic computes the resolution of a
  DAC of the given number of bits over the span; with an entry below that resolution,
  and with one above it.
\<close>

definition gui0 :: cavity_gui where
  "gui0 =
    \<lparr>scan_resolution_spinBox = 1 / 100000, start_voltage = 3, end_voltage = 1,
     scan_resolution = 1 / 1000,
     calculate_resolution = (\<lambda>bits r. (snd r - fst r) / 2 ^ bits),
     gui_log = []\<rparr>"

definition gui1 :: cavity_gui where
  "gui1 = gui0\<lparr>scan_resolution_spinBox := 1 / 10000\<rparr>"

section \<open>Properties of the photon-counting card driver\<close>

subsection \<open>Binary64 rounding\<close>

text \<open>
  \<open>rd\<close> is characterised by the exponent and the significand of its result
  (\<open>rd_pos_unique\<close>, and \<open>rd_neg_exp\<close> for numbers below \<open>2 ^ 52\<close>); it leaves
  \<open>k * 2 ^ e\<close> alone when \<open>k\<close> has at most 53 bits (\<open>rd_exact\<close>), and its
  relative error is at most \<open>2 ^ -53\<close> (\<open>rd_error\<close>). Hence the integer part of the
  float quotient of two integers is their integer quotient as long as the dividend
  is below \<open>2 ^ 53\<close> (\<open>py_int_rd_div\<close>).
\<close>

declare ilog2.simps [simp del]

lemma ilog2_bounds: "0 < n \<Longrightarrow> 2 ^ ilog2 n \<le> n \<and> n < 2 ^ Suc (ilog2 n)"
proof (induction n rule: ilog2.induct)
  case (1 n)
  consider (small) "n < 2" | (big) "\<not> n < 2" by blast
  then show ?case
  proof cases
    case small
    with 1(2) have "n = 1" by simp
    then show ?thesis by (simp add: ilog2.simps)
  next
    case big
    then have pos: "0 < n div 2" by simp
    from 1(1) [OF big pos]
    have lo: "2 ^ ilog2 (n div 2) \<le> n div 2" and hi: "n div 2 < 2 ^ Suc (ilog2 (n div 2))"
      by simp_all
    have e: "ilog2 n = Suc (ilog2 (n div 2))" using big by (subst ilog2.simps) simp
    from lo have "2 * 2 ^ ilog2 (n div 2) \<le> n" by arith
    moreover from hi have "n < 2 * 2 ^ Suc (ilog2 (n div 2))" by arith
    ultimately show ?thesis unfolding e by simp
  qed
qed

lemma powi_two_less_cancel:
  assumes "(2::rat) powi a < 2 powi b"
  shows "a < b"
proof (rule ccontr)
  assume "\<not> a < b"
  then have "b \<le> a" by simp
  then have "(2::rat) powi b \<le> 2 powi a" by (rule power_int_increasing) simp
  with assms show False by simp
qed

lemma flog2_bounds:
  assumes "0 < q"
  shows "2 powi flog2 q \<le> q \<and> q < 2 powi (flog2 q + 1)"
proof -
  obtain a b where ab: "quotient_of q = (a, b)" by (cases "quotient_of q")
  have bpos: "0 < b" using quotient_of_denom_pos [OF ab] .
  have q: "q = of_int a / of_int b" by (rule quotient_of_div [OF ab])
  have apos: "0 < a"
  proof (rule ccontr)
    assume "\<not> 0 < a"
    then have "(of_int a :: rat) \<le> 0" by simp
    with bpos have "q \<le> 0" unfolding q by (simp add: divide_le_0_iff)
    with assms show False by simp
  qed
  define i where "i = ilog2 (nat a)"
  define j where "j = ilog2 (nat b)"
  from ilog2_bounds [of "nat a"] apos
  have ai: "2 ^ i \<le> nat a" "nat a < 2 ^ Suc i" by (simp_all add: i_def)
  from ilog2_bounds [of "nat b"] bpos
  have bj: "2 ^ j \<le> nat b" "nat b < 2 ^ Suc j" by (simp_all add: j_def)
  have a1: "(2::rat) ^ i \<le> of_int a"
  proof -
    from ai(1) have "(of_nat (2 ^ i) :: rat) \<le> of_nat (nat a)" by (simp only: of_nat_le_iff)
    then show ?thesis using apos by simp
  qed
  have a2: "(of_int a :: rat) < 2 ^ Suc i"
  proof -
    from ai(2) have "(of_nat (nat a) :: rat) < of_nat (2 ^ Suc i)" by (simp only: of_nat_less_iff)
    then show ?thesis using apos by simp
  qed
  have b1: "(2::rat) ^ j \<le> of_int b"
  proof -
    from bj(1) have "(of_nat (2 ^ j) :: rat) \<le> of_nat (nat b)" by (simp only: of_nat_le_iff)
    then show ?thesis using bpos by simp
  qed
  have b2: "(of_int b :: rat) < 2 ^ Suc j"
  proof -
    from bj(2) have "(of_nat (nat b) :: rat) < of_nat (2 ^ Suc j)" by (simp only: of_nat_less_iff)
    then show ?thesis using bpos by simp
  qed
  define k where "k = int i - int j"
  have bq: "(0::rat) < of_int b" using bpos by simp
  have pk: "(2::rat) powi k = 2 ^ i / 2 ^ j"
    unfolding k_def by (simp add: power_int_diff)
  have pk1: "(2::rat) powi (k + 1) = 2 ^ Suc i / 2 ^ j"
    unfolding k_def by (simp add: power_int_diff power_int_add)
  have pkm: "(2::rat) powi (k - 1) = 2 ^ i / 2 ^ Suc j"
  proof -
    have "k - 1 = int i - int (Suc j)" unfolding k_def by simp
    then show ?thesis by (simp add: power_int_diff)
  qed
  have up: "q < 2 powi (k + 1)"
  proof -
    have "of_int a * (2::rat) ^ j < 2 ^ Suc i * of_int b"
    proof -
      have "of_int a * (2::rat) ^ j < 2 ^ Suc i * 2 ^ j"
        using a2 by (simp only: mult_strict_right_mono zero_less_power zero_less_numeral)
      also have "\<dots> \<le> 2 ^ Suc i * of_int b"
        using b1 by (simp only: mult_left_mono zero_le_power zero_le_numeral)
      finally show ?thesis .
    qed
    then show ?thesis unfolding q pk1 using bq by (simp add: field_simps)
  qed
  have lo: "2 powi (k - 1) < q"
  proof -
    have "(2::rat) ^ i * of_int b < of_int a * 2 ^ Suc j"
    proof -
      have "(2::rat) ^ i * of_int b < 2 ^ i * 2 ^ Suc j"
        using b2 by (simp only: mult_strict_left_mono zero_less_power zero_less_numeral)
      also have "\<dots> \<le> of_int a * 2 ^ Suc j"
        using a1 by (simp only: mult_right_mono zero_le_power zero_le_numeral)
      finally show ?thesis .
    qed
    then show ?thesis unfolding q pkm using bq by (simp add: field_simps)
  qed
  have f: "flog2 q = (if 2 powi k \<le> q then k else k - 1)"
    unfolding flog2_def Let_def ab fst_conv snd_conv k_def i_def j_def ..
  consider (ge) "2 powi k \<le> q" | (lt) "\<not> 2 powi k \<le> q" by blast
  then show ?thesis
  proof cases
    case ge
    then have "flog2 q = k" using f by simp
    with ge up show ?thesis by simp
  next
    case lt
    then have "flog2 q = k - 1" using f by simp
    with lt lo show ?thesis by simp
  qed
qed

lemma flog2_unique:
  assumes "2 powi k \<le> q" and "q < 2 powi (k + 1)"
  shows "flog2 q = k"
proof -
  have "(0::rat) < 2 powi k" by simp
  from this assms(1) have pos: "0 < q" by (rule less_le_trans)
  from flog2_bounds [OF pos]
  have lo: "2 powi flog2 q \<le> q" and hi: "q < 2 powi (flog2 q + 1)" by simp_all
  from lo assms(2) have "(2::rat) powi flog2 q < 2 powi (k + 1)" by simp
  then have 1: "flog2 q < k + 1" by (rule powi_two_less_cancel)
  from assms(1) hi have "(2::rat) powi k < 2 powi (flog2 q + 1)" by simp
  then have 2: "k < flog2 q + 1" by (rule powi_two_less_cancel)
  from 1 2 show ?thesis by simp
qed

lemma round_half_even_unique:
  assumes "of_int m - 1 / 2 < x" and "x < of_int m + 1 / 2"
  shows "round_half_even x = m"
proof -
  consider (lo) "x < of_int m" | (hi) "of_int m \<le> x" by linarith
  then show ?thesis
  proof cases
    case lo
    have f: "\<lfloor>x\<rfloor> = m - 1"
      using lo assms(1) by (intro floor_unique) simp_all
    show ?thesis unfolding round_half_even_def Let_def f using assms(1) lo by simp
  next
    case hi
    have f: "\<lfloor>x\<rfloor> = m"
      using hi assms(2) by (intro floor_unique) simp_all
    show ?thesis unfolding round_half_even_def Let_def f using assms(2) by simp
  qed
qed

lemma round_half_even_tie:
  assumes "x = of_int f + 1 / 2"
  shows "round_half_even x = (if even f then f else f + 1)"
proof -
  have f: "\<lfloor>x\<rfloor> = f" unfolding assms by (intro floor_unique) simp_all
  show ?thesis unfolding round_half_even_def Let_def f unfolding assms by simp
qed

lemma round_half_even_error: "\<bar>of_int (round_half_even x) - x\<bar> \<le> 1 / 2"
proof -
  have "of_int \<lfloor>x\<rfloor> \<le> x" "x < of_int \<lfloor>x\<rfloor> + 1" by linarith+
  then show ?thesis
    unfolding round_half_even_def Let_def by (simp add: abs_if) linarith
qed

lemma rd_pos_unique:
  assumes lo: "2 powi (e + 52) \<le> q" and hi: "q < 2 powi (e + 53)"
    and m: "round_half_even (q / 2 powi e) = m"
  shows "rd q = of_int m * 2 powi e"
proof -
  have "(0::rat) < 2 powi (e + 52)" by simp
  from this lo have pos: "0 < q" by (rule less_le_trans)
  have eq: "e + 53 = e + 52 + 1" by simp
  from hi have "q < 2 powi (e + 52 + 1)" unfolding eq .
  from flog2_unique [OF lo this] have fl: "flog2 q = e + 52" .
  from pos have a: "\<bar>q\<bar> = q" "sgn q = 1" "q \<noteq> 0" by simp_all
  show ?thesis by (simp add: rd_def Let_def a fl m)
qed


lemma round_half_even_of_int: "round_half_even (of_int z) = z"
  by (rule round_half_even_unique) simp_all

lemma rd_neg_exp:
  assumes lo: "2 ^ 52 \<le> q * 2 ^ n" and hi: "q * 2 ^ n < 2 ^ 53"
    and m1: "of_int m - 1 / 2 < q * 2 ^ n" and m2: "q * 2 ^ n < of_int m + 1 / 2"
  shows "rd q = of_int m / 2 ^ n"
proof -
  have p: "(2::rat) powi (- int n) = 1 / 2 ^ n"
    by (simp add: power_int_minus field_simps)
  have p52: "(2::rat) powi (- int n + 52) = 2 ^ 52 / 2 ^ n"
  proof -
    have "(2::rat) powi (- int n + 52) = 2 powi (- int n) * 2 powi 52"
      by (rule power_int_add) simp
    then show ?thesis unfolding p by simp
  qed
  have p53: "(2::rat) powi (- int n + 53) = 2 ^ 53 / 2 ^ n"
  proof -
    have "(2::rat) powi (- int n + 53) = 2 powi (- int n) * 2 powi 53"
      by (rule power_int_add) simp
    then show ?thesis unfolding p by simp
  qed
  have a: "2 powi (- int n + 52) \<le> q"
    unfolding p52 using lo by (simp add: field_simps)
  have b: "q < 2 powi (- int n + 53)"
    unfolding p53 using hi by (simp add: field_simps)
  have x: "q / 2 powi (- int n) = q * 2 ^ n" unfolding p by simp
  have "round_half_even (q / 2 powi (- int n)) = m"
    unfolding x by (rule round_half_even_unique [OF m1 m2])
  from rd_pos_unique [OF a b this] show ?thesis unfolding p by simp
qed

lemma rd_pos_exp:
  assumes lo: "2 ^ 52 * 2 ^ n \<le> q" and hi: "q < 2 ^ 53 * 2 ^ n"
    and m1: "of_int m - 1 / 2 < q / 2 ^ n" and m2: "q / 2 ^ n < of_int m + 1 / 2"
  shows "rd q = of_int m * 2 ^ n"
proof -
  have p: "(2::rat) powi (int n) = 2 ^ n" by simp
  have p52: "(2::rat) powi (int n + 52) = 2 ^ 52 * 2 ^ n"
    by (simp add: power_int_add)
  have p53: "(2::rat) powi (int n + 53) = 2 ^ 53 * 2 ^ n"
    by (simp add: power_int_add)
  have a: "2 powi (int n + 52) \<le> q" unfolding p52 using lo .
  have b: "q < 2 powi (int n + 53)" unfolding p53 using hi .
  have "round_half_even (q / 2 powi (int n)) = m"
    unfolding p by (rule round_half_even_unique [OF m1 m2])
  from rd_pos_unique [OF a b this] show ?thesis unfolding p .
qed

lemma rd_minus: "rd (- q) = - rd q"
  by (simp add: rd_def Let_def)

lemma round_half_even_nonneg: "0 \<le> x \<Longrightarrow> 0 \<le> round_half_even x"
proof -
  assume "0 \<le> x"
  then have "0 \<le> \<lfloor>x\<rfloor>" by simp
  then show ?thesis unfolding round_half_even_def Let_def by simp
qed

lemma rd_nonneg: "0 \<le> q \<Longrightarrow> 0 \<le> rd q"
proof -
  assume q: "0 \<le> q"
  have "0 \<le> round_half_even (\<bar>q\<bar> / 2 powi (flog2 \<bar>q\<bar> - 52))"
    by (rule round_half_even_nonneg) simp
  then show ?thesis using q by (simp add: rd_def Let_def sgn_if)
qed

lemma rd_error:
  assumes "0 < q"
  shows "\<bar>rd q - q\<bar> \<le> q / 2 ^ 53"
proof -
  define f where "f = flog2 q"
  define e where "e = f - 52"
  define m where "m = round_half_even (q / 2 powi e)"
  from flog2_bounds [OF assms] have lo: "2 powi f \<le> q" by (simp add: f_def)
  from assms have a: "\<bar>q\<bar> = q" "sgn q = 1" "q \<noteq> 0" by simp_all
  have r: "rd q = of_int m * 2 powi e"
    by (simp add: rd_def Let_def a m_def e_def f_def)
  have pe: "(0::rat) < 2 powi e" by simp
  have "\<bar>of_int m - q / 2 powi e\<bar> \<le> 1 / 2"
    unfolding m_def by (rule round_half_even_error)
  then have "\<bar>of_int m - q / 2 powi e\<bar> * 2 powi e \<le> 1 / 2 * 2 powi e"
    using pe by (simp only: mult_right_mono less_imp_le)
  moreover have "\<bar>of_int m - q / 2 powi e\<bar> * 2 powi e = \<bar>of_int m * 2 powi e - q\<bar>"
  proof -
    have "\<bar>of_int m - q / 2 powi e\<bar> * 2 powi e = \<bar>(of_int m - q / 2 powi e) * 2 powi e\<bar>"
      using pe by (simp add: abs_mult)
    also have "(of_int m - q / 2 powi e) * 2 powi e = of_int m * 2 powi e - q"
      using pe by (simp add: field_simps)
    finally show ?thesis .
  qed
  ultimately have 1: "\<bar>rd q - q\<bar> \<le> 1 / 2 * 2 powi e" unfolding r by simp
  have "(2::rat) powi e = 2 powi f / 2 ^ 52"
    unfolding e_def by (simp add: power_int_diff)
  then have "1 / 2 * (2::rat) powi e = 2 powi f / 2 ^ 53" by simp
  also have "\<dots> \<le> q / 2 ^ 53" using lo by (simp add: divide_right_mono)
  finally show ?thesis using 1 by simp
qed

lemma rd_exact_pos:
  assumes k: "0 < k" "k < 2 ^ 53"
  shows "rd (of_int k * 2 powi e) = of_int k * 2 powi e"
proof -
  define q :: rat where "q = of_int k * 2 powi e"
  have qpos: "0 < q" unfolding q_def using k(1) by simp
  define f where "f = flog2 q"
  from flog2_bounds [OF qpos] have lo: "2 powi f \<le> q" by (simp add: f_def)
  have "q < 2 ^ 53 * 2 powi e"
  proof -
    from k(2) have "(of_int k :: rat) < of_int (2 ^ 53)" by (simp only: of_int_less_iff)
    then have "(of_int k :: rat) < 2 ^ 53" by simp
    then show ?thesis unfolding q_def
      by (simp only: mult_strict_right_mono zero_less_power_int zero_less_numeral)
  qed
  also have "\<dots> = 2 powi (e + 53)" by (simp add: power_int_add)
  finally have "q < 2 powi (e + 53)" .
  with lo have "(2::rat) powi f < 2 powi (e + 53)" by simp
  then have "f < e + 53" by (rule powi_two_less_cancel)
  then have t: "0 \<le> e - f + 52" by simp
  define t where "t = nat (e - f + 52)"
  have pt: "(2::rat) powi (e - (f - 52)) = 2 ^ t"
  proof -
    have "e - (f - 52) = int t" unfolding t_def using t by simp
    then show ?thesis by simp
  qed
  have "q / 2 powi (f - 52) = of_int k * 2 powi (e - (f - 52))"
    unfolding q_def by (simp add: power_int_diff)
  also have "\<dots> = of_int (k * 2 ^ t)" unfolding pt by simp
  finally have x: "q / 2 powi (f - 52) = of_int (k * 2 ^ t)" .
  from qpos have a: "\<bar>q\<bar> = q" "sgn q = 1" "q \<noteq> 0" by simp_all
  have "rd q = of_int (k * 2 ^ t) * 2 powi (f - 52)"
    by (simp only: rd_def Let_def a if_False f_def [symmetric] x round_half_even_of_int mult_1)
  also have "\<dots> = q" using x by (simp add: field_simps)
  finally show ?thesis unfolding q_def .
qed

lemma rd_exact:
  assumes "\<bar>k\<bar> < 2 ^ 53"
  shows "rd (of_int k * 2 powi e) = of_int k * 2 powi e"
proof -
  consider (z) "k = 0" | (p) "0 < k" | (n) "k < 0" by linarith
  then show ?thesis
  proof cases
    case z
    then show ?thesis by (simp add: rd_def)
  next
    case p
    with assms show ?thesis by (intro rd_exact_pos) simp_all
  next
    case n
    with assms have "rd (of_int (- k) * 2 powi e) = of_int (- k) * 2 powi e"
      by (intro rd_exact_pos) simp_all
    then have "rd (- (of_int k * 2 powi e)) = - (of_int k * 2 powi e)" by simp
    then show ?thesis unfolding rd_minus by simp
  qed
qed

lemma rd_of_int: "\<bar>k\<bar> < 2 ^ 53 \<Longrightarrow> rd (of_int k) = of_int k"
  using rd_exact [of k 0] by simp

lemma rd_of_int_div_pow2: "\<bar>k\<bar> < 2 ^ 53 \<Longrightarrow> rd (of_int k / 2 ^ n) = of_int k / 2 ^ n"
  using rd_exact [of k "- int n"] by (simp add: power_int_minus field_simps)

lemma py_int_rd_div:
  assumes N: "0 \<le> N" "N < 2 ^ 53" and H: "0 < H"
  shows "py_int (rd (of_int N / of_int H)) = N div H"
proof -
  define q :: rat where "q = of_int N / of_int H"
  define k where "k = N div H"
  define r where "r = N mod H"
  have Nkr: "N = k * H + r" unfolding k_def r_def by simp
  have r0: "0 \<le> r" "r < H" unfolding r_def using H by simp_all
  have k0: "0 \<le> k" unfolding k_def using N(1) H by (simp add: pos_imp_zdiv_nonneg_iff)
  have Hq: "(0::rat) < of_int H" using H by simp
  have qk: "q = of_int k + of_int r / of_int H"
    unfolding q_def Nkr using Hq by (simp add: field_simps)
  have q0: "0 \<le> q" unfolding q_def using N(1) H by simp
  have fl: "\<lfloor>rd q\<rfloor> = k"
  proof -
    consider (z) "r = 0" | (nz) "0 < r" using r0 by linarith
    then show ?thesis
    proof cases
      case z
      then have e: "q = of_int k" using qk by simp
      have "k * 1 \<le> k * H" using k0 H by (intro mult_left_mono) simp_all
      with Nkr z have "k \<le> N" by simp
      with k0 N(2) have "\<bar>k\<bar> < 2 ^ 53" by simp
      then show ?thesis unfolding e by (simp add: rd_of_int)
    next
      case nz
      have qpos: "0 < q" unfolding qk using k0 nz Hq by (simp add: add_nonneg_pos)
      have Nq: "(of_int N :: rat) < 2 ^ 53"
      proof -
        from N(2) have "(of_int N :: rat) < of_int (2 ^ 53)" by (simp only: of_int_less_iff)
        then show ?thesis by simp
      qed
      have err: "q / 2 ^ 53 < 1 / of_int H"
      proof -
        have "q / 2 ^ 53 = (of_int N / 2 ^ 53) / of_int H" unfolding q_def by simp
        also have "\<dots> < 1 / of_int H"
          using Nq Hq by (intro divide_strict_right_mono) simp_all
        finally show ?thesis .
      qed
      from rd_error [OF qpos] err have d: "\<bar>rd q - q\<bar> < 1 / of_int H" by simp
      have r1: "(1::rat) \<le> of_int r"
      proof -
        from nz have "1 \<le> r" by simp
        then have "(of_int 1 :: rat) \<le> of_int r" by (simp only: of_int_le_iff)
        then show ?thesis by simp
      qed
      have r2: "(of_int r :: rat) \<le> of_int H - 1"
      proof -
        from r0(2) have "r \<le> H - 1" by simp
        then have "(of_int r :: rat) \<le> of_int (H - 1)" by (simp only: of_int_le_iff)
        then show ?thesis by simp
      qed
      have lo: "of_int k + 1 / of_int H \<le> q"
        unfolding qk using r1 Hq by (simp add: divide_right_mono)
      have "of_int r / of_int H \<le> (of_int H - 1) / (of_int H :: rat)"
        using r2 Hq by (simp add: divide_right_mono)
      also have "\<dots> = 1 - 1 / of_int H" using Hq by (simp add: field_simps)
      finally have hi: "q \<le> of_int k + 1 - 1 / of_int H" unfolding qk by simp
      from d lo have a: "of_int k \<le> rd q" by (simp add: abs_if split: if_splits)
      from d hi have b: "rd q < of_int k + 1" by (simp add: abs_if split: if_splits)
      from a b show ?thesis by (intro floor_unique) simp_all
    qed
  qed
  have "0 \<le> rd q" by (rule rd_nonneg [OF q0])
  then have "py_int (rd q) = k" unfolding py_int_def using fl by simp
  then show ?thesis unfolding q_def k_def .
qed

text \<open>The floats that the decimal literals of the driver denote.\<close>

lemma rd_1e9: "rd (1 / 10 ^ 9) = 4835703278458517 / 2 ^ 82"
  using rd_neg_exp [of "1 / 10 ^ 9" 82 4835703278458517] by simp


lemma rd_200e9: "rd (200 / 10 ^ 9) = 7555786372591432 / 2 ^ 75"
  using rd_neg_exp [of "200 / 10 ^ 9" 75 7555786372591432] by simp



subsection \<open>Reading the settings structure\<close>

lemma getattr_cycles:
  "getattr (GetSettingData d) ''cycles'' = Inr (PyInt (sint (d_cycles (mem d))))"
  by (simp add: getattr_def GetSettingData_def)

lemma getattr_range:
  "getattr (GetSettingData d) ''range'' = Inr (PyInt (uint (d_range (mem d))))"
  by (simp add: getattr_def GetSettingData_def)




text \<open>An unsigned 32-bit field holds a number below \<open>2 ^ 32\<close>, which a float holds
  exactly; a number in that range is stored and read back unchanged.\<close>

lemma uint_range_bounds: "0 \<le> uint (w :: 32 word) \<and> uint w < 2 ^ 32"
  using uint_lt2p [of w] by simp



subsection \<open>Status polling without a cap\<close>

text \<open>
  A driver whose card never shows the status a loop waits for: \<open>unbounded_poll\<close>
  does not return (\<open>unbounded_poll_stuck\<close>).
\<close>

lemma read_status_feed [simp]:
  "started_feed (dll (snd (read_status st))) = started_feed (dll st)"
  by (simp add: read_status_def GetStatusData_def)

lemma sleep_feed [simp]: "started_feed (dll (sleep ms st)) = started_feed (dll st)"
  by (simp add: sleep_def)

lemma read_status_started:
  "started (fst (read_status st)) = started_feed (dll st) (status_reads (dll st))"
  by (simp add: read_status_def GetStatusData_def)

lemma get_status_no_wait:
  assumes "started_feed (dll st) (status_reads (dll st)) \<noteq> 3"
  shows "get_status st = Some (status_code (fst (read_status st)) (snd (read_status st)))"
proof -
  have "status_wait (read_status st) = Some (read_status st)"
    using assms by (subst status_wait.simps) (simp add: read_status_started)
  then show ?thesis by (simp add: get_status_def split: prod.split)
qed

lemma status_code_feed [simp]:
  "started_feed (dll (snd (status_code s st))) = started_feed (dll st)"
  by (simp add: status_code_def fc_logmsg_def)

lemma unbounded_poll_never:
  assumes stuck: "\<And>st' :: fastcomtec. started_feed (dll st') = fd \<Longrightarrow>
           \<exists>r. get_status st' = Some r \<and> fst r \<noteq> t \<and> started_feed (dll (snd r)) = fd"
    and run: "unbounded_poll t st = Some y"
  shows "started_feed (dll st) \<noteq> fd"
proof -
  have step: "u = t \<longrightarrow> started_feed (dll s) \<noteq> fd"
    if IH: "\<And>a b c. f a b = Some c \<Longrightarrow> a = t \<longrightarrow> started_feed (dll b) \<noteq> fd"
      and body: "Option.bind (get_status s)
             (\<lambda>p. if fst p \<noteq> u then f u (sleep 50 (snd p)) else Some (snd p)) = Some z"
    for f u s z
  proof (intro impI notI)
    assume u: "u = t" and fd: "started_feed (dll s) = fd"
    from stuck [OF fd] obtain r where r: "get_status s = Some r" "fst r \<noteq> t"
      "started_feed (dll (snd r)) = fd"
      by blast
    from body r u have "f t (sleep 50 (snd r)) = Some z" by simp
    from IH [OF this] r(3) show False by simp
  qed
  have "t = t \<longrightarrow> started_feed (dll st) \<noteq> fd"
    by (rule unbounded_poll.raw_induct
          [where P = "\<lambda>u s z. u = t \<longrightarrow> started_feed (dll s) \<noteq> fd", OF step run])
  then show ?thesis by simp
qed

lemma unbounded_poll_stuck:
  assumes "\<And>st' :: fastcomtec. started_feed (dll st') = started_feed (dll st) \<Longrightarrow>
           \<exists>r. get_status st' = Some r \<and> fst r \<noteq> t
                 \<and> started_feed (dll (snd r)) = started_feed (dll st)"
  shows "unbounded_poll t st = None"
proof (rule ccontr)
  assume "unbounded_poll t st \<noteq> None"
  then obtain y where "unbounded_poll t st = Some y" by auto
  from unbounded_poll_never [OF assms this] show False by simp
qed

lemma get_status_const_feed:
  fixes st' :: fastcomtec
  assumes "started_feed (dll st') = (\<lambda>k. c)" and "c \<noteq> 3"
  shows "\<exists>r. get_status st' = Some r \<and> fst r = fst (status_code \<lparr>started = c, runtime = dev_runtime (dll st'), sweeps = dev_sweeps (dll st')\<rparr> st')
        \<and> started_feed (dll (snd r)) = (\<lambda>k. c)"
proof -
  have "started_feed (dll st') (status_reads (dll st')) \<noteq> 3" using assms by simp
  from get_status_no_wait [OF this] show ?thesis
    using assms by (simp add: read_status_def GetStatusData_def status_code_def fc_logmsg_def)
qed

lemma pause_stuck: "pause_measure fc_running = None"
proof -
  let ?st1 = "snd (dll_call Halt (fc_running\<lparr>stopped_or_halt := ''halt''\<rparr>))"
  have feed: "started_feed (dll ?st1) = (\<lambda>k. 1)"
    by (simp add: dll_call_def RunCmd_def dev_RunCmd_def fc_running_def)
  have "unbounded_poll 3 ?st1 = None"
  proof (rule unbounded_poll_stuck)
    fix st' :: fastcomtec
    assume "started_feed (dll st') = started_feed (dll ?st1)"
    then have "started_feed (dll st') = (\<lambda>k. 1)" using feed by simp
    from get_status_const_feed [OF this]
    show "\<exists>r. get_status st' = Some r \<and> fst r \<noteq> 3
              \<and> started_feed (dll (snd r)) = started_feed (dll ?st1)"
      using feed by (auto simp: status_code_def)
  qed
  then show ?thesis
    by (simp add: pause_measure_def case_prod_beta)
qed

lemma continue_stuck: "continue_measure fc0 = None"
proof -
  let ?st1 = "snd (dll_call Continue fc0)"
  have feed: "started_feed (dll ?st1) = (\<lambda>k. 0)"
    by (simp add: dll_call_def RunCmd_def dev_RunCmd_def fc0_def dev0_def)
  have "unbounded_poll 2 ?st1 = None"
  proof (rule unbounded_poll_stuck)
    fix st' :: fastcomtec
    assume "started_feed (dll st') = started_feed (dll ?st1)"
    then have "started_feed (dll st') = (\<lambda>k. 0)" using feed by simp
    from get_status_const_feed [OF this]
    show "\<exists>r. get_status st' = Some r \<and> fst r \<noteq> 2
              \<and> started_feed (dll (snd r)) = started_feed (dll ?st1)"
      using feed by (auto simp: status_code_def)
  qed
  then show ?thesis
    by (simp add: continue_measure_def case_prod_beta) (simp add: fc0_def)
qed

subsection \<open>The data trace\<close>

text \<open>
  The shape of the trace that \<open>get_data_trace\<close> returns, and what it does once a
  pause has left its result in \<open>timetrace_tmp\<close>.
\<close>

lemma get_data_trace_ungated:
  assumes "\<not> gated st"
  shows "\<exists>xs i st'. get_data_trace st = Inr ((Arr1 xs, i), st')
            \<and> int (length xs) = uint (d_range (mem (dll st)))"
  using assms
  by (simp add: get_data_trace_def getattr_range read_1d_def get_current_sweeps_def
        case_prod_beta Let_def)

lemma get_data_trace_gated:
  assumes g: "gated st" and e: "timetrace_tmp st = PyEmptyList"
    and H: "H = (if sint (d_cycles (mem (dll st))) = 0 then 1 else sint (d_cycles (mem (dll st))))"
    and pos: "0 < H"
  shows "\<exists>rows i st'. get_data_trace st = Inr ((Arr2 rows, i), st')
            \<and> int (length rows) = H
            \<and> list_all (\<lambda>r. int (length r) = uint (d_range (mem (dll st))) div H) rows"
proof -
  define N where "N = uint (d_range (mem (dll st)))"
  have nn: "0 \<le> N" and n53: "N < 2 ^ 53"
    using uint_range_bounds [of "d_range (mem (dll st))"] by (simp_all add: N_def)
  have m: "py_int (rd (of_int N / of_int H)) = N div H"
    by (rule py_int_rd_div [OF nn n53 pos])
  have mn: "0 \<le> N div H"
    using pos nn by (simp add: pos_imp_zdiv_nonneg_iff)
  have r: "read_2d (dll st) H (py_int (rd (of_int N / of_int H))) =
        Inr (Arr2 (map (\<lambda>r. map (\<lambda>c. histogram (dll st) (r * nat (N div H) + c))
                                  [0..<nat (N div H)]) [0..<nat H]))"
    using pos mn by (simp add: read_2d_def m)
  consider (z) "sint (d_cycles (mem (dll st))) = 0" | (nz) "sint (d_cycles (mem (dll st))) \<noteq> 0"
    by blast
  then have "get_data_trace st =
      Inr ((Arr2 (map (\<lambda>r. map (\<lambda>c. histogram (dll st) (r * nat (N div H) + c))
                                  [0..<nat (N div H)]) [0..<nat H]),
            \<lparr>elapsed_sweeps = fst (get_current_sweeps st), elapsed_time = None\<rparr>),
           snd (get_current_sweeps st))"
  proof cases
    case z
    then have "H = 1" using H by simp
    with z g e r show ?thesis
      by (simp add: get_data_trace_def getattr_range getattr_cycles Let_def case_prod_beta N_def)
  next
    case nz
    then have "H = sint (d_cycles (mem (dll st)))" using H by simp
    with nz g e r show ?thesis
      by (simp add: get_data_trace_def getattr_range getattr_cycles Let_def case_prod_beta N_def)
  qed
  moreover have "int (length (map (\<lambda>r. map (\<lambda>c. histogram (dll st) (r * nat (N div H) + c))
                                  [0..<nat (N div H)]) [0..<nat H])) = H"
    using pos by simp
  moreover have "list_all (\<lambda>r. int (length r) = N div H)
        (map (\<lambda>r. map (\<lambda>c. histogram (dll st) (r * nat (N div H) + c))
                                  [0..<nat (N div H)]) [0..<nat H])"
    using mn by (simp add: list_all_iff)
  ultimately show ?thesis unfolding N_def by blast
qed

lemma add_pair_raises: "add_pair t p = Inl ValueError \<or> add_pair t p = Inl TypeError"
  by (simp add: add_pair_def)

lemma get_data_trace_pending:
  assumes "gated st" and "timetrace_tmp st = TraceResult a i"
  shows "get_data_trace st = Inl ValueError \<or> get_data_trace st = Inl TypeError"
  using assms
  by (simp add: get_data_trace_def getattr_range getattr_cycles read_2d_def add_pair_def Let_def)

lemma unbounded_poll_hit: "get_status st = Some (t, st') \<Longrightarrow> unbounded_poll t st = Some st'"
  by (subst unbounded_poll.simps) simp

lemma get_current_sweeps_frame [simp]:
  "gated (snd (get_current_sweeps st)) = gated st"
  "timetrace_tmp (snd (get_current_sweeps st)) = timetrace_tmp st"
  by (simp_all add: get_current_sweeps_def read_status_def case_prod_beta)

lemma get_data_trace_frame:
  assumes "get_data_trace st = Inr (r, st')"
  shows "gated st' = gated st"
  using assms
  by (auto simp add: get_data_trace_def Let_def case_prod_beta split: sum.splits if_splits tmp_val.splits)

lemma read_status_gated [simp]: "gated (snd (read_status st)) = gated st"
  by (simp add: read_status_def case_prod_beta)

lemma sleep_gated [simp]: "gated (sleep ms st) = gated st"
  by (simp add: sleep_def)

lemma status_code_gated [simp]: "gated (snd (status_code s st)) = gated st"
  by (simp add: status_code_def fc_logmsg_def)

lemma status_wait_gated:
  assumes "status_wait p = Some q"
  shows "gated (snd q) = gated (snd p)"
proof -
  have step: "gated (snd y) = gated (snd x)"
    if IH: "\<And>a b. f a = Some b \<Longrightarrow> gated (snd b) = gated (snd a)"
      and body: "(if started (fst x) = 3 then f (read_status (sleep 100 (snd x))) else Some x)
                   = Some y"
    for f x y
    using IH [of "read_status (sleep 100 (snd x))" y] body
    by (auto split: if_splits)
  show ?thesis
    by (rule status_wait.raw_induct
          [where P = "\<lambda>a b. gated (snd b) = gated (snd a)", OF step assms])
qed

lemma get_status_gated:
  assumes "get_status st = Some p"
  shows "gated (snd p) = gated st"
proof -
  from assms obtain q where q: "status_wait (read_status st) = Some q"
    and p: "p = status_code (fst q) (snd q)"
    by (auto simp: get_status_def split: option.splits)
  from status_wait_gated [OF q] p show ?thesis by simp
qed

lemma unbounded_poll_gated:
  assumes "unbounded_poll t st = Some st'"
  shows "gated st' = gated st"
proof -
  have step: "gated z = gated s"
    if IH: "\<And>a b c. f a b = Some c \<Longrightarrow> gated c = gated b"
      and body: "Option.bind (get_status s)
             (\<lambda>p. if fst p \<noteq> u then f u (sleep 50 (snd p)) else Some (snd p)) = Some z"
    for f u s z
  proof -
    from body obtain p where p: "get_status s = Some p"
      and q: "(if fst p \<noteq> u then f u (sleep 50 (snd p)) else Some (snd p)) = Some z"
      by (auto simp: bind_eq_Some_conv)
    have gp: "gated (snd p) = gated s" by (rule get_status_gated [OF p])
    from q IH [of u "sleep 50 (snd p)" z] gp show ?thesis
      by (auto split: if_splits)
  qed
  show ?thesis
    by (rule unbounded_poll.raw_induct [where P = "\<lambda>u s z. gated z = gated s", OF step assms])
qed

lemma pause_then_trace_raises:
  assumes "gated st" and "pause_measure st = Some (Inr (status, st'))"
  shows "get_data_trace st' = Inl ValueError \<or> get_data_trace st' = Inl TypeError"
proof -
  let ?st1 = "snd (dll_call Halt (st\<lparr>stopped_or_halt := ''halt''\<rparr>))"
  from assms(2) obtain st2 where st2: "unbounded_poll 3 ?st1 = Some st2"
    by (auto simp: pause_measure_def case_prod_beta split: option.splits)
  have g1: "gated ?st1" using assms(1) by (simp add: dll_call_def RunCmd_def)
  have g2: "gated st2" using unbounded_poll_gated [OF st2] g1 by simp
  from assms(2) st2 g2 obtain a i st3 where
    tr: "get_data_trace st2 = Inr ((a, i), st3)" and st': "st' = st3\<lparr>timetrace_tmp := TraceResult a i\<rparr>"
    by (auto simp: pause_measure_def case_prod_beta split: sum.splits)
  have "gated st'" using get_data_trace_frame [OF tr] g2 st' by simp
  moreover have "timetrace_tmp st' = TraceResult a i" using st' by simp
  ultimately show ?thesis by (rule get_data_trace_pending)
qed

lemma pause_gated_returns: "\<exists>status st'. pause_measure fc_gated = Some (Inr (status, st'))"
proof -
  let ?st1 = "snd (dll_call Halt (fc_gated\<lparr>stopped_or_halt := ''halt''\<rparr>))"
  have feed: "started_feed (dll ?st1) (status_reads (dll ?st1)) = 0"
    by (simp add: dll_call_def RunCmd_def dev_RunCmd_def fc_gated_def fc0_def dev0_def)
  then have "started_feed (dll ?st1) (status_reads (dll ?st1)) \<noteq> 3" by simp
  from get_status_no_wait [OF this]
  have gs: "get_status ?st1 = Some (3, snd (read_status ?st1))"
    using feed
    by (simp add: status_code_def read_status_started)
       (simp add: read_status_def case_prod_beta dll_call_def RunCmd_def)
  let ?st2 = "snd (read_status ?st1)"
  have up: "unbounded_poll 3 ?st1 = Some ?st2" by (rule unbounded_poll_hit [OF gs])
  have g2: "gated ?st2" by (simp add: dll_call_def RunCmd_def fc_gated_def)
  have t2: "timetrace_tmp ?st2 = PyEmptyList"
    by (simp add: read_status_def case_prod_beta dll_call_def RunCmd_def fc_gated_def fc0_def)
  have m2: "sint (d_cycles (mem (dll ?st2))) = 2"
    by (simp add: read_status_def GetStatusData_def case_prod_beta dll_call_def RunCmd_def
          dev_RunCmd_def fc_gated_def fc0_def dev0_def mem0_def)
  from get_data_trace_gated [OF g2 t2, of 2] m2
  obtain rows i st3 where "get_data_trace ?st2 = Inr ((Arr2 rows, i), st3)" by auto
  with up g2 show ?thesis
    by (simp add: pause_measure_def case_prod_beta)
qed

subsection \<open>Status polling with a cap\<close>

text \<open>
  When the card never reports "about to stop", \<open>get_status\<close> returns at once and
  the capped loop ends after at most \<open>n_wait_max + 1\<close> status reads.
\<close>

lemma status_code_dll [simp]: "dll (snd (status_code s st)) = dll st"
  by (simp add: status_code_def fc_logmsg_def)

lemma read_status_reads [simp]:
  "status_reads (dll (snd (read_status st))) = Suc (status_reads (dll st))"
  by (simp add: read_status_def GetStatusData_def)

lemma sleep_dll [simp]: "dll (sleep ms st) = dll st"
  by (simp add: sleep_def)

lemma bounded_poll_returns:
  assumes "\<forall>k. started_feed (dll st) k \<noteq> 3"
  shows "\<exists>i st'. bounded_poll t i0 st = Some (i, st')
           \<and> status_reads (dll st') \<le> status_reads (dll st) + (n_wait_max - i0) + 1
           \<and> started_feed (dll st') = started_feed (dll st)"
  using assms
proof (induction t i0 st rule: bounded_poll.induct)
  case (1 target i_wait st)
  let ?p = "status_code (fst (read_status st)) (snd (read_status st))"
  have gs: "get_status st = Some ?p"
    using "1.prems" by (intro get_status_no_wait) simp
  show ?case
  proof -
    consider (again) "fst ?p \<noteq> target \<and> i_wait < n_wait_max"
      | (stop) "\<not> (fst ?p \<noteq> target \<and> i_wait < n_wait_max)"
      by blast
    then show ?thesis
    proof cases
      case again
      have feed: "\<forall>k. started_feed (dll (sleep 50 (snd ?p))) k \<noteq> 3"
        using "1.prems" by simp
      have pp: "(fst ?p, snd ?p) = ?p" by simp
      from "1.IH" [OF gs pp again feed]
      obtain i st' where r: "bounded_poll target (Suc i_wait) (sleep 50 (snd ?p)) = Some (i, st')"
        "status_reads (dll st') \<le> status_reads (dll (sleep 50 (snd ?p))) + (n_wait_max - Suc i_wait) + 1"
        "started_feed (dll st') = started_feed (dll (sleep 50 (snd ?p)))"
        by auto
      have "bounded_poll target i_wait st = Some (i, st')"
        using gs again r(1) by (subst bounded_poll.simps) (simp add: case_prod_beta)
      moreover have "status_reads (dll st') \<le> status_reads (dll st) + (n_wait_max - i_wait) + 1"
        using r(2) again by (simp; arith)
      moreover have "started_feed (dll st') = started_feed (dll st)"
        using r(3) by simp
      ultimately show ?thesis by blast
    next
      case stop
      have "bounded_poll target i_wait st = Some (i_wait, snd ?p)"
        using gs stop by (subst bounded_poll.simps) (auto simp add: case_prod_beta)
      then show ?thesis by simp
    qed
  qed
qed

lemma start_measure_returns:
  assumes "\<forall>k. started_feed (dll st) k \<noteq> 3"
  shows "\<exists>r st'. start_measure st = Some (r, st')
           \<and> status_reads (dll st') \<le> status_reads (dll st) + 21"
proof -
  let ?st1 = "snd (dll_call Start st)"
  have f1: "\<forall>k. started_feed (dll ?st1) k \<noteq> 3"
    using assms by (simp add: dll_call_def RunCmd_def dev_RunCmd_def)
  have r1: "status_reads (dll ?st1) = status_reads (dll st)"
    by (simp add: dll_call_def RunCmd_def dev_RunCmd_def)
  from bounded_poll_returns [OF f1, of 2 0] obtain i st' where
    b: "bounded_poll 2 0 ?st1 = Some (i, st')"
      "status_reads (dll st') \<le> status_reads (dll ?st1) + (n_wait_max - 0) + 1"
    by blast
  then show ?thesis
    using r1 by (auto simp add: start_measure_def case_prod_beta n_wait_max_def fc_logmsg_def)
qed

lemma stop_measure_returns:
  assumes "\<forall>k. started_feed (dll st) k \<noteq> 3"
  shows "\<exists>r st'. stop_measure st = Some (r, st')
           \<and> status_reads (dll st') \<le> status_reads (dll st) + 21"
proof -
  let ?st1 = "snd (dll_call Halt (st\<lparr>stopped_or_halt := ''stopped''\<rparr>))"
  have f1: "\<forall>k. started_feed (dll ?st1) k \<noteq> 3"
    using assms by (simp add: dll_call_def RunCmd_def dev_RunCmd_def)
  have r1: "status_reads (dll ?st1) = status_reads (dll st)"
    by (simp add: dll_call_def RunCmd_def dev_RunCmd_def)
  from bounded_poll_returns [OF f1, of 1 0] obtain i st' where
    b: "bounded_poll 1 0 ?st1 = Some (i, st')"
      "status_reads (dll st') \<le> status_reads (dll ?st1) + (n_wait_max - 0) + 1"
    by blast
  then show ?thesis
    using r1 by (auto simp add: stop_measure_def case_prod_beta n_wait_max_def fc_logmsg_def Let_def)
qed

subsection \<open>Length and bin width\<close>


























text \<open>
  Likewise for \<open>record_length_s = 1.8e-6\<close>: the quotient is 1599.9999999999998,
  1599 bins, of which \<open>set_length\<close> keeps 1536.
\<close>

lemma rd_18e7: "rd (18 / 10 ^ 7) = 8500259669165361 / 2 ^ 72"
  using rd_neg_exp [of "18 / 10 ^ 7" 72 8500259669165361] by simp

lemma diff_16e7: "rd (rd (18 / 10 ^ 7) - rd (200 / 10 ^ 9)) = 7555786372591432 / 2 ^ 72"
proof -
  have "(8500259669165361 / 2 ^ 72 - 7555786372591432 / 2 ^ 75 :: rat)
          = of_int 7555786372591432 / 2 ^ 72"
    by simp
  moreover have "rd (of_int 7555786372591432 / 2 ^ 72) = of_int 7555786372591432 / 2 ^ 72"
    by (rule rd_of_int_div_pow2) simp
  moreover have "(of_int 7555786372591432 / 2 ^ 72 :: rat) = 7555786372591432 / 2 ^ 72" by simp
  ultimately show ?thesis unfolding rd_18e7 rd_200e9 by (simp only:)
qed

lemma bins_1599:
  "py_int (rd (rd (rd (18 / 10 ^ 7) - rd (200 / 10 ^ 9)) / rd (1 / 10 ^ 9))) = 1599
   \<and> (64::int) * (1599 div 64) = 1536"
proof -
  have q: "rd (rd (rd (18 / 10 ^ 7) - rd (200 / 10 ^ 9)) / rd (1 / 10 ^ 9))
             = 7036874417766399 / 2 ^ 42"
    unfolding diff_16e7 rd_1e9
    using rd_neg_exp [of "7555786372591432 / 2 ^ 72 / (4835703278458517 / 2 ^ 82)" 42
            7036874417766399]
    by simp
  have "\<lfloor>7036874417766399 / 2 ^ 42 :: rat\<rfloor> = 1599"
    by (intro floor_unique) simp_all
  then show ?thesis unfolding q by (simp add: py_int_def)
qed




subsection \<open>The claims about the photon-counting card driver\<close>

text \<open>
  Claim C10. Every call of \<open>get_sequences\<close> fails with an attribute error and returns
  no value: the name \<open>sequences\<close> is not among the fields that \<open>AcqSettings\<close>
  declares, whatever the state of driver and device.
\<close>

theorem get_sequences_raises_AttributeError:
  "''sequences'' \<notin> fst ` set (GetSettingData (dll st)) \<and> get_sequences st = Inl AttributeError"
  by (simp add: get_sequences_def getattr_def GetSettingData_def)

text \<open>
  Claim C3, at the inputs where the code departs from it. The loops of
  \<open>pause_measure\<close> and of the ungated \<open>continue_measure\<close> have no iteration cap:
  \<open>pause_measure\<close> on a card that keeps running never returns, and neither does
  \<open>continue_measure\<close> on a card that stays stopped. (\<open>start_measure\<close> and
  \<open>stop_measure\<close> do return after at most 21 status reads whenever the card never
  reports "about to stop": lemmas \<open>start_measure_returns\<close> and
  \<open>stop_measure_returns\<close>.)
\<close>

theorem pause_and_continue_poll_forever:
  "pause_measure fc_running = None \<and> continue_measure fc0 = None"
  by (rule conjI [OF pause_stuck continue_stuck])




text \<open>
  Claim C8, at the input where the code departs from it. In gated mode
  \<open>pause_measure\<close> stores the whole result of \<open>get_data_trace\<close>, the pair of
  trace and info dictionary, in \<open>timetrace_tmp\<close>; the next \<open>get_data_trace\<close>
  then adds that pair to the fresh trace and raises instead of returning the
  element-wise sum. (The shapes of the traces that are returned are as the claim says:
  lemmas \<open>get_data_trace_ungated\<close> and \<open>get_data_trace_gated\<close>.)
\<close>

theorem trace_after_gated_pause_raises:
  "(case pause_measure fc_gated of
      Some (Inr (status, st1)) \<Rightarrow>
        (case get_data_trace st1 of Inl e \<Rightarrow> e = TypeError \<or> e = ValueError | Inr r \<Rightarrow> False)
    | _ \<Rightarrow> False)"
proof -
  from pause_gated_returns obtain status st' where
    p: "pause_measure fc_gated = Some (Inr (status, st'))" by blast
  have "gated fc_gated" by (simp add: fc_gated_def)
  from pause_then_trace_raises [OF this p] p show ?thesis by auto
qed


section \<open>Properties of the DAQ board driver\<close>

subsection \<open>scanner\_set\_position\<close>

lemma ni_logmsg_hw_log [simp]: "hw_log (ni_logmsg lv m st) = hw_log st"
  by (simp add: ni_logmsg_def)

lemma scanner_locked:
  "module_state st = ''locked'' \<Longrightarrow>
     fst (scanner_set_position st x y z a) = Inr (- 1)
     \<and> current_position (snd (scanner_set_position st x y z a)) = current_position st"
  by (simp add: scanner_set_position_def ni_logmsg_def)

lemma scanner_first_axis_rejected:
  assumes "module_state st \<noteq> ''locked''" and "0 < length (scanner_position_ranges st)"
    and "\<not> (fst (scanner_position_ranges st ! 0) \<le> p \<and> p \<le> snd (scanner_position_ranges st ! 0))"
  shows "fst (scanner_set_position st (Some p) y z a) = Inr (- 1)
     \<and> current_position (snd (scanner_set_position st (Some p) y z a)) = current_position st"
  using assms by (simp add: scanner_set_position_def axis_block_def ni_logmsg_def)

lemma scanner_second_axis_rejected:
  assumes "module_state st \<noteq> ''locked''" and "1 < length (scanner_position_ranges st)"
    and "0 < length (current_position st)"
    and "fst (scanner_position_ranges st ! 0) \<le> p \<and> p \<le> snd (scanner_position_ranges st ! 0)"
    and "\<not> (fst (scanner_position_ranges st ! 1) \<le> q \<and> q \<le> snd (scanner_position_ranges st ! 1))"
  shows "fst (scanner_set_position st (Some p) (Some q) z a) = Inr (- 1)
     \<and> current_position (snd (scanner_set_position st (Some p) (Some q) z a))
         = (current_position st)[0 := p]"
proof -
  have ne: "scanner_position_ranges st \<noteq> []" using assms(2) by auto
  show ?thesis
    using assms ne by (simp add: scanner_set_position_def axis_block_def ni_logmsg_def)
qed

text \<open>
  Claim C1, at the input where the code departs from it. With \<open>x\<close> in range and
  \<open>y\<close> out of range the call is rejected with \<open>-1\<close> and nothing is written to the
  hardware, but the tracked position has already taken the new \<open>x\<close>: each axis is
  stored as soon as it has passed its own check. (A call that is locked out, or whose
  first given axis is out of range, does leave the position unchanged: lemmas
  \<open>scanner_locked\<close> and \<open>scanner_first_axis_rejected\<close>.)
\<close>

theorem scanner_set_position_partial_update:
  "fst (scanner_set_position ni0 (Some (1 / 20000)) (Some (1 / 5000)) None None) = Inr (- 1)
   \<and> current_position ni0 = [0, 0, 0, 0]
   \<and> current_position (snd (scanner_set_position ni0 (Some (1 / 20000)) (Some (1 / 5000)) None None))
       = [1 / 20000, 0, 0, 0]
   \<and> hw_log (snd (scanner_set_position ni0 (Some (1 / 20000)) (Some (1 / 5000)) None None)) = []"
  by (simp add: scanner_set_position_def axis_block_def ni0_def ni_logmsg_def)

subsection \<open>get\_counter\<close>

lemma get_counter_no_task_default:
  "counter_daq_tasks st = [] \<Longrightarrow> fst (get_counter st None) = Inl TypeError"
  by (simp add: get_counter_def minus_ones_def)

lemma get_counter_no_task_given:
  "counter_daq_tasks st = [] \<Longrightarrow> 0 \<le> n \<Longrightarrow>
     fst (get_counter st (Some n)) =
       Inr (replicate (length (get_counter_channels st)) (replicate (nat n) (- 1)))"
  by (simp add: get_counter_def minus_ones_def)

lemma get_counter_default_never_returns:
  "samples_number st = None \<Longrightarrow>
     fst (get_counter st None) = Inl TypeError \<or> fst (get_counter st None) = Inl AttributeError"
  by (simp add: get_counter_def minus_ones_def)

text \<open>
  Claim C2, at the input where the code departs from it. With no counter task set up
  and \<open>samples\<close> left at its default \<open>None\<close>, the error branch builds its array
  of \<open>-1\<close> from the unresolved \<open>samples\<close>, and \<open>np.ones\<close> raises
  \<open>TypeError\<close>: the default is only replaced by a number after both precondition
  checks. (With a number of samples given, the same branch returns the array of
  \<open>-1\<close> of the claimed shape: lemma \<open>get_counter_no_task_given\<close>.)
\<close>

theorem get_counter_default_samples_raises: "fst (get_counter ni0 None) = Inl TypeError"
  by (simp add: get_counter_def minus_ones_def ni0_def)

subsection \<open>The clocks\<close>

lemma pulse_freqs_append: "pulse_freqs (xs @ ys) = pulse_freqs xs @ pulse_freqs ys"
  by (induction xs rule: pulse_freqs.induct) simp_all

lemma call_fails_hw_log [simp]: "call_fails (st\<lparr>hw_log := l\<rparr>) c = call_fails st c"
  by (cases c) (auto elim: call_fails.elims)

lemma map_of_dict_set [simp]: "map_of (dict_set k v d) k = Some v"
  by (induction d) auto

lemma set_up_clock_issued:
  "(case set_up_clock st freq chan scanner idle of (r, st') \<Rightarrow>
      (r = 0 \<and> issued st st' =
           [case freq of Some f \<Rightarrow> f
            | None \<Rightarrow> if scanner then default_scanner_clock_frequency st
                      else default_clock_frequency st]
         \<and> (if scanner then scanner_clock_frequency st' else clock_frequency st') =
           Some (case freq of Some f \<Rightarrow> f
            | None \<Rightarrow> if scanner then default_scanner_clock_frequency st
                      else default_clock_frequency st))
      \<or> (r = - 1 \<and> (issued st st' = [] \<or> issued st st' =
           [case freq of Some f \<Rightarrow> f
            | None \<Rightarrow> if scanner then default_scanner_clock_frequency st
                      else default_clock_frequency st])))"
  by (auto simp add: set_up_clock_def Let_def issued_def pulse_freqs_append
        assign_clock_frequency_def assign_clock_channel_def ni_logmsg_def
        split: option.splits)

lemma set_up_clock_new_issued:
  "(case set_up_clock_new st name freq chan idle start of (r, st') \<Rightarrow>
      (r = 0 \<and> issued st st' =
           [case freq of Some f \<Rightarrow> if f \<le> 0 then dummy_frequency st else f
            | None \<Rightarrow> dummy_frequency st]
         \<and> map_of (clock_frequency_new st') name =
           Some (case freq of Some f \<Rightarrow> if f \<le> 0 then dummy_frequency st else f
            | None \<Rightarrow> dummy_frequency st))
      \<or> (r = - 1 \<and> (issued st st' = [] \<or> issued st st' =
           [case freq of Some f \<Rightarrow> if f \<le> 0 then dummy_frequency st else f
            | None \<Rightarrow> dummy_frequency st])))"
  by (auto simp add: set_up_clock_new_def Let_def issued_def pulse_freqs_append
        ni_logmsg_def
        split: option.splits)

text \<open>
  Claim C4 as stated fails for the fixed-role pair: \<open>set_up_clock\<close> doubles the
  nominal rate into \<open>my_clock_frequency\<close> and hands \<open>my_clock_frequency / 2\<close> to
  \<open>DAQmxCreateCOPulseChanFreq\<close>. With a nominal rate of 100 Hz the library receives
  100, not 200, for the counter clock and for the scanner clock.
\<close>

theorem set_up_clock_pulse_not_doubled:
  "(case set_up_clock ni0 (Some 100) None False False of
      (r, st') \<Rightarrow> r = 0 \<and> pulse_freqs (hw_log st') = [100])
   \<and> (case set_up_clock ni0 (Some 100) None True False of
      (r, st') \<Rightarrow> r = 0 \<and> pulse_freqs (hw_log st') = [100])
   \<and> (100 :: rat) \<noteq> 2 * 100"
  by (simp add: set_up_clock_def ni0_def Let_def assign_clock_frequency_def
        assign_clock_channel_def)

text \<open>
  Claim C4, amended. Whatever the state and the arguments, \<open>set_up_clock\<close> hands the
  library at most one pulse frequency, and it is the nominal rate itself: the given
  \<open>clock_frequency\<close>, or the role's default when none is given; when the call
  returns 0 it has handed over exactly that one frequency and stored it as the role's
  clock frequency. In the same way \<open>set_up_clock_new\<close> hands over the rate it records
  under the name: the given frequency when it is positive, the dummy frequency
  otherwise.
\<close>

theorem clock_pulse_frequency_is_nominal:
  "(case set_up_clock st freq chan scanner idle of (r, st') \<Rightarrow>
      (r = 0 \<and> issued st st' =
           [case freq of Some f \<Rightarrow> f
            | None \<Rightarrow> if scanner then default_scanner_clock_frequency st
                      else default_clock_frequency st]
         \<and> (if scanner then scanner_clock_frequency st' else clock_frequency st') =
           Some (case freq of Some f \<Rightarrow> f
            | None \<Rightarrow> if scanner then default_scanner_clock_frequency st
                      else default_clock_frequency st))
      \<or> (r = - 1 \<and> (issued st st' = [] \<or> issued st st' =
           [case freq of Some f \<Rightarrow> f
            | None \<Rightarrow> if scanner then default_scanner_clock_frequency st
                      else default_clock_frequency st])))
   \<and> (case set_up_clock_new st2 name freq2 chan2 idle2 start of (r, st') \<Rightarrow>
      (r = 0 \<and> issued st2 st' =
           [case freq2 of Some f \<Rightarrow> if f \<le> 0 then dummy_frequency st2 else f
            | None \<Rightarrow> dummy_frequency st2]
         \<and> map_of (clock_frequency_new st') name =
           Some (case freq2 of Some f \<Rightarrow> if f \<le> 0 then dummy_frequency st2 else f
            | None \<Rightarrow> dummy_frequency st2))
      \<or> (r = - 1 \<and> (issued st2 st' = [] \<or> issued st2 st' =
           [case freq2 of Some f \<Rightarrow> if f \<le> 0 then dummy_frequency st2 else f
            | None \<Rightarrow> dummy_frequency st2])))"
  by (rule conjI [OF set_up_clock_issued set_up_clock_new_issued])

section \<open>Properties of the pulse-sequence generators\<close>

lemma pol_ise_raises:
  assumes "''self'' \<notin> set (attribute_names self)"
  shows "fst (generate_pol_ise_pentacene self name t_laser t_mw_ramp f_mw_sweep jump_channel)
           = Inl (if t_mw_ramp = 0 then ZeroDivisionError else AttributeError)"
  using assms
  by (simp add: generate_pol_ise_pentacene_def self_getattr_def Let_def)

lemma finish_info:
  "(case finish self name block reps alt var un lab n of
      (blocks, ens, seqs) \<Rightarrow>
        map (\<lambda>e. map_option number_of_lasers (info e)) ens = [Some n])"
  by (simp add: finish_def Let_def case_prod_beta)

lemma podmr_lasers:
  "(case generate_podmr_pentacene self name f0 df w2 n alt of
      (blocks, ens, seqs) \<Rightarrow>
        map (\<lambda>e. map_option number_of_lasers (info e)) ens = [Some n])"
  unfolding generate_podmr_pentacene_def Let_def by (rule finish_info)

lemma fakecw_lasers:
  "(case generate_fakecwodmr_pentacene self name f0 df ts n alt of
      (blocks, ens, seqs) \<Rightarrow>
        map (\<lambda>e. map_option number_of_lasers (info e)) ens = [Some n])"
  unfolding generate_fakecwodmr_pentacene_def Let_def by (rule finish_info)

lemma rabi_lasers:
  "(case generate_rabi_pentacene self name t0 dt n w2 alt of
      (blocks, ens, seqs) \<Rightarrow>
        map (\<lambda>e. map_option number_of_lasers (info e)) ens = [Some (if alt then 2 * n else n)])"
  unfolding generate_rabi_pentacene_def Let_def by (rule finish_info)

lemma t1_lasers:
  "(case generate_t1_pentacene self name t0 dt n alt w2 of
      (blocks, ens, seqs) \<Rightarrow>
        map (\<lambda>e. map_option number_of_lasers (info e)) ens = [Some (if alt then 2 * n else n)])"
  unfolding generate_t1_pentacene_def Let_def by (rule finish_info)

text \<open>
  Claim C5, at the input where the code departs from it. Called with its default
  arguments (\<open>t_laser = 1e-6\<close>, \<open>t_mw_ramp = 100e-9\<close>, \<open>f_mw_sweep = 10e6\<close>,
  \<open>jump_channel = 'd_ch4'\<close>), \<open>generate_pol_ise_pentacene\<close> returns no block: the
  chirp element is asked of \<open>self.self\<close>, the generator object has no attribute
  \<open>self\<close>, and the call ends in \<open>AttributeError\<close>. Lemma \<open>pol_ise_raises\<close> shows
  the same for every argument and every generator object without that attribute.
\<close>

theorem pol_ise_attribute_error:
  "generate_pol_ise_pentacene gen0 ''pol_pen'' (1 / 10 ^ 6) (1 / 10 ^ 7) (10 ^ 7) ''d_ch4''
     = (Inl AttributeError, [])"
  by (simp add: generate_pol_ise_pentacene_def self_getattr_def gen0_def py_mod_def Let_def)

text \<open>
  Claim C6, at the input where the code departs from it. With 20 points and the
  alternating flag set, the pulsed-ODMR and the fake CW-ODMR generator each build a
  block with 40 readout elements and report \<open>number_of_lasers = 20\<close>: both write
  \<open>num_of_points\<close> whatever the flag (lemmas \<open>podmr_lasers\<close>, \<open>fakecw_lasers\<close>),
  where Rabi and T1 double it (lemmas \<open>rabi_lasers\<close>, \<open>t1_lasers\<close>).
\<close>

theorem odmr_number_of_lasers_not_doubled:
  "(case generate_podmr_pentacene gen0 ''podmr_pen'' (143 * 10 ^ 7) (2 * 10 ^ 6) (5 / 10 ^ 5) 20 True of
      (blocks, ens, seqs) \<Rightarrow>
        map (\<lambda>e. map_option number_of_lasers (info e)) ens = [Some 20]
        \<and> map readout_count blocks = [40])
   \<and> (case generate_fakecwodmr_pentacene gen0 ''fake_cw_odmr_pen'' (143 * 10 ^ 7) (2 * 10 ^ 6) (5 / 10 ^ 5) 20 True of
      (blocks, ens, seqs) \<Rightarrow>
        map (\<lambda>e. map_option number_of_lasers (info e)) ens = [Some 20]
        \<and> map readout_count blocks = [40])"
  by code_simp

section \<open>Properties of the cavity-stabilisation console\<close>

lemma scan_resolution_changed_again:
  "scan_resolution (scan_resolution_changed (scan_resolution_changed g))
     = scan_resolution (scan_resolution_changed g)
   \<and> scan_resolution_spinBox (scan_resolution_changed (scan_resolution_changed g))
     = scan_resolution_spinBox (scan_resolution_changed g)"
  by (simp add: scan_resolution_changed_def Let_def)

text \<open>
  Claim C9. In \<open>scan_resolution_changed\<close>: when the maximal resolution computed for a
  16-bit DAC over the span from the smaller to the larger of start and end voltage
  exceeds the value entered in the spin box, the logic's resolution and the spin box
  are both set to that maximum and one warning is logged; when the entered value is at
  least the maximum, it is stored as the logic's resolution, and spin box and log stay
  as they are.
\<close>

theorem scan_resolution_clamp:
  "(scan_resolution_spinBox g
      < calculate_resolution g 16 (min (start_voltage g) (end_voltage g),
                                   max (start_voltage g) (end_voltage g)) \<longrightarrow>
      scan_resolution (scan_resolution_changed g)
        = calculate_resolution g 16 (min (start_voltage g) (end_voltage g),
                                     max (start_voltage g) (end_voltage g))
      \<and> scan_resolution_spinBox (scan_resolution_changed g)
        = calculate_resolution g 16 (min (start_voltage g) (end_voltage g),
                                     max (start_voltage g) (end_voltage g))
      \<and> (\<exists>msg. gui_log (scan_resolution_changed g) = gui_log g @ [(Warning, msg)]))
   \<and> (calculate_resolution g 16 (min (start_voltage g) (end_voltage g),
                                   max (start_voltage g) (end_voltage g))
      \<le> scan_resolution_spinBox g \<longrightarrow>
      scan_resolution (scan_resolution_changed g) = scan_resolution_spinBox g
      \<and> scan_resolution_spinBox (scan_resolution_changed g) = scan_resolution_spinBox g
      \<and> gui_log (scan_resolution_changed g) = gui_log g)"
  by (simp add: scan_resolution_changed_def Let_def)

theorem scan_resolution_clamp_witness:
  "scan_resolution_spinBox gui0
      < calculate_resolution gui0 16 (min (start_voltage gui0) (end_voltage gui0),
                                      max (start_voltage gui0) (end_voltage gui0))
   \<and> scan_resolution (scan_resolution_changed gui0) = 1 / 32768
   \<and> scan_resolution_spinBox (scan_resolution_changed gui0) = 1 / 32768
   \<and> calculate_resolution gui1 16 (min (start_voltage gui1) (end_voltage gui1),
                                      max (start_voltage gui1) (end_voltage gui1))
      \<le> scan_resolution_spinBox gui1
   \<and> scan_resolution (scan_resolution_changed gui1) = 1 / 10000
   \<and> scan_resolution_spinBox (scan_resolution_changed gui1) = 1 / 10000"
proof -
  have a: "scan_resolution_spinBox gui0
      < calculate_resolution gui0 16 (min (start_voltage gui0) (end_voltage gui0),
                                      max (start_voltage gui0) (end_voltage gui0))"
    by (simp add: gui0_def)
  have m: "calculate_resolution gui0 16 (min (start_voltage gui0) (end_voltage gui0),
                                      max (start_voltage gui0) (end_voltage gui0)) = 1 / 32768"
    by (simp add: gui0_def)
  have b: "calculate_resolution gui1 16 (min (start_voltage gui1) (end_voltage gui1),
                                      max (start_voltage gui1) (end_voltage gui1))
      \<le> scan_resolution_spinBox gui1"
    by (simp add: gui1_def gui0_def)
  have s: "scan_resolution_spinBox gui1 = 1 / 10000"
    by (simp add: gui1_def)
  from conjunct1 [OF scan_resolution_clamp [of gui0], rule_format, OF a]
  have 1: "scan_resolution (scan_resolution_changed gui0) = 1 / 32768"
    "scan_resolution_spinBox (scan_resolution_changed gui0) = 1 / 32768"
    unfolding m by (rule conjunct1, rule conjunct1 [OF conjunct2])
  from conjunct2 [OF scan_resolution_clamp [of gui1], rule_format, OF b]
  have 2: "scan_resolution (scan_resolution_changed gui1) = 1 / 10000"
    "scan_resolution_spinBox (scan_resolution_changed gui1) = 1 / 10000"
    unfolding s by (rule conjunct1, rule conjunct1 [OF conjunct2])
  show ?thesis
    by (rule conjI [OF a conjI [OF 1(1) conjI [OF 1(2) conjI [OF b conjI [OF 2(1) 2(2)]]]]])
qed

end
